theory Spec2Isabelle
  imports Complex_Main "HOL-Library.Option_ord" "HOL-Library.Product_Lexorder"
    "HOL-Library.Multiset"
begin

section \<open>Data model\<close>

text \<open>
  The tracking backbone of the logistics portal: the \<open>Shipment\<close> and \<open>TrackingEvent\<close>
  models, \<open>TrackingService\<close> (ingestion, dedup, due-shipment selection, notification
  matching) and \<open>RealTimeTrackingService\<close> (the socket hub).

  Times (\<open>TIMESTAMP\<close> columns, JavaScript \<open>Date\<close>) are seconds since the epoch.
  A column or property that may be \<open>NULL\<close>/\<open>undefined\<close> is an \<open>option\<close>.
  The 0/1 flag columns are booleans. Statuses, event codes and categories are the
  strings the code compares.
\<close>

type_synonym timestamp = int

record Shipment =
  shipment_id :: string
  awb_number :: string
  customer_id :: string
  origin_airport :: string
  destination_airport :: string
  current_status :: "string option"
  current_location :: "string option"
  pickup_date :: "timestamp option"
  delivery_date :: "timestamp option"
  estimated_delivery_date :: "timestamp option"
  tracking_enabled :: bool
  last_tracked_at :: "timestamp option"
  tracking_frequency_minutes :: int

text \<open>
  One record serves for a \<open>TrackingEvent\<close> instance, for a row of \<open>tracking_events\<close> and
  for the \<open>eventData\<close> / \<open>externalData\<close> objects the service receives: they carry the
  same properties. \<open>te_shipment_id\<close> is the event's \<open>shipment_id\<close>.
\<close>

record TrackingEvent =
  event_id :: string
  te_shipment_id :: string
  event_code :: string
  event_description :: string
  event_category :: "string option"
  event_location :: "string option"
  event_country :: "string option"
  event_city :: "string option"
  airport_code :: "string option"
  event_datetime :: "timestamp option"
  event_timezone :: "string option"
  milestone_id :: "string option"
  is_milestone :: bool
  is_exception :: bool
  is_critical :: bool
  severity_level :: "string option"
  source_id :: "string option"
  external_event_id :: "string option"
  source_reference :: "string option"
  additional_info :: "string option"
  longitude :: "real option"
  latitude :: "real option"
  temperature_celsius :: "real option"
  humidity_percent :: "real option"
  processed :: bool
  notification_sent :: bool
  customer_visible :: bool
  created_at :: "timestamp option"
  created_by :: "string option"
  milestone_name :: "string option"
  milestone_category :: "string option"
  source_name :: "string option"

record subscription =
  subscription_id :: string
  sub_shipment_id :: string
  sub_customer_id :: string
  notification_method :: string
  notification_endpoint :: "string option"
  milestone_notifications :: bool
  exception_notifications :: bool
  location_updates :: bool
  all_events :: bool
  is_active :: bool

text \<open>
  The store: the three tables the tracking code reads and writes, and the log of calls
  to \<open>notificationService.sendTrackingNotification(subscription, trackingEvent, shipment)\<close>
  (the subscription and the event's id).
\<close>

record state =
  shipments :: "Shipment list"
  tracking_events :: "TrackingEvent list"
  tracking_subscriptions :: "subscription list"
  notifications :: "(subscription \<times> string) list"

datatype error =
    ShipmentNotFound
  | AccessDenied
  | Duplicate
  | StoreError
  | TrackingDisabled
  | UnsupportedSource
  | UpstreamError
  | AuthenticationRequired

subsection \<open>JavaScript truthiness\<close>

definition truthy_str :: "string option \<Rightarrow> bool" where
  "truthy_str v = (case v of None \<Rightarrow> False | Some s \<Rightarrow> s \<noteq> [])"

definition truthy_num :: "real option \<Rightarrow> bool" where
  "truthy_num v = (case v of None \<Rightarrow> False | Some x \<Rightarrow> x \<noteq> 0)"

definition or_str :: "string option \<Rightarrow> string \<Rightarrow> string option" where
  \<comment> \<open>\<open>v || d\<close> on a string property\<close>
  "or_str v d = (if truthy_str v then v else Some d)"

section \<open>Shipment model\<close>

definition Shipment_new :: "Shipment \<Rightarrow> Shipment" where
  \<comment> \<open>the constructor's defaults on a row: \<open>current_status || 'CREATED'\<close> and
      \<open>tracking_frequency_minutes || 30\<close>\<close>
  "Shipment_new d =
     d\<lparr> current_status := or_str (current_status d) ''CREATED'',
        tracking_frequency_minutes :=
          (if tracking_frequency_minutes d = 0 then 30 else tracking_frequency_minutes d) \<rparr>"

definition findById :: "state \<Rightarrow> string \<Rightarrow> Shipment option" where
  "findById st shipmentId =
     map_option Shipment_new (find (\<lambda>s. shipment_id s = shipmentId) (shipments st))"

definition findByAwb :: "state \<Rightarrow> string \<Rightarrow> Shipment option" where
  "findByAwb st awbNumber =
     map_option Shipment_new (find (\<lambda>s. awb_number s = awbNumber) (shipments st))"

definition delete_shipment :: "state \<Rightarrow> Shipment \<Rightarrow> state" where
  \<comment> \<open>\<open>Shipment.delete\<close>: the soft delete\<close>
  "delete_shipment st this =
     st\<lparr> shipments :=
          map (\<lambda>s. if shipment_id s = shipment_id this
                    then s\<lparr> current_status := Some ''CANCELLED'' \<rparr> else s) (shipments st) \<rparr>"

section \<open>TrackingEvent model\<close>

definition TrackingEvent_new :: "TrackingEvent \<Rightarrow> TrackingEvent" where
  \<comment> \<open>the constructor's defaults; \<open>event_id\<close> is supplied by the caller (\<open>uuidv4()\<close>)\<close>
  "TrackingEvent_new d =
     d\<lparr> event_category := or_str (event_category d) ''STATUS_UPDATE'',
        event_timezone := or_str (event_timezone d) ''UTC'',
        severity_level := or_str (severity_level d) ''INFO'' \<rparr>"

definition statusMapping :: "string \<Rightarrow> string option" where
  \<comment> \<open>the own properties of the object literal in \<open>updateShipmentStatus\<close>\<close>
  "statusMapping code =
     map_of
       [(''SHIPMENT_CREATED'', ''CREATED''),
        (''CARGO_COLLECTED'', ''BOOKED''),
        (''MANIFESTED'', ''MANIFESTED''),
        (''FLIGHT_DEPARTED'', ''DEPARTED''),
        (''IN_TRANSIT'', ''IN_TRANSIT''),
        (''FLIGHT_ARRIVED'', ''ARRIVED''),
        (''CUSTOMS_CLEARANCE'', ''CUSTOMS_CLEARANCE''),
        (''CUSTOMS_CLEARED'', ''CUSTOMS_CLEARANCE''),
        (''OUT_FOR_DELIVERY'', ''OUT_FOR_DELIVERY''),
        (''DELIVERED'', ''DELIVERED'')] code"

definition inherited_names :: "string list" where
  \<comment> \<open>the properties that the object literal inherits: for these names
      \<open>statusMapping[code]\<close> is a function or an object, not a status\<close>
  "inherited_names =
     [''constructor'', ''toString'', ''toLocaleString'', ''valueOf'', ''hasOwnProperty'',
      ''isPrototypeOf'', ''propertyIsEnumerable'', ''__proto__'', ''__defineGetter__'',
      ''__defineSetter__'', ''__lookupGetter__'', ''__lookupSetter__'']"

datatype lookup = Own string | Inherited | Undefined

definition statusMapping_at :: "string \<Rightarrow> lookup" where
  \<comment> \<open>\<open>statusMapping[this.event_code]\<close>\<close>
  "statusMapping_at code =
     (case statusMapping code of
        Some s \<Rightarrow> Own s
      | None \<Rightarrow> if code \<in> set inherited_names then Inherited else Undefined)"

definition this_current_status :: "TrackingEvent \<Rightarrow> string option" where
  \<comment> \<open>\<open>this.current_status\<close> inside \<open>TrackingEvent\<close>: the constructor sets no such
      property, so it is \<open>undefined\<close> and binds as \<open>NULL\<close>\<close>
  "this_current_status ev = None"

definition updateShipmentStatus :: "state \<Rightarrow> TrackingEvent \<Rightarrow> error + state" where
  \<comment> \<open>an inherited value is truthy, so \<open>||\<close> keeps it; it cannot be bound and the
      \<open>UPDATE\<close> throws before anything is written\<close>
  "updateShipmentStatus st ev =
     (if is_milestone ev \<or> event_category ev = Some ''STATUS_UPDATE'' then
        (case (case statusMapping_at (event_code ev) of
                 Own s \<Rightarrow> Inr (Some s)
               | Inherited \<Rightarrow> Inl StoreError
               | Undefined \<Rightarrow> Inr (this_current_status ev)) of
           Inl e \<Rightarrow> Inl e
         | Inr newStatus \<Rightarrow>
             (let st1 = st\<lparr> shipments :=
                         map (\<lambda>s. if shipment_id s = te_shipment_id ev
                                   then s\<lparr> current_status := newStatus,
                                           current_location := event_location ev,
                                           last_tracked_at := event_datetime ev \<rparr>
                                   else s) (shipments st) \<rparr>
              in if event_code ev = ''DELIVERED''
                 then Inr (st1\<lparr> shipments :=
                            map (\<lambda>s. if shipment_id s = te_shipment_id ev
                                      then s\<lparr> delivery_date := event_datetime ev \<rparr>
                                      else s) (shipments st1) \<rparr>)
                 else Inr st1))
      else Inr st)"

definition fits :: "string option \<Rightarrow> nat \<Rightarrow> bool" where
  \<comment> \<open>a \<open>VARCHAR2(n)\<close> column takes the value\<close>
  "fits v n = (case v of None \<Rightarrow> True | Some s \<Rightarrow> length s \<le> n)"

definition one_of :: "string option \<Rightarrow> string list \<Rightarrow> bool" where
  \<comment> \<open>a \<open>CHECK (column IN (...))\<close> constraint; \<open>NULL\<close> passes\<close>
  "one_of v allowed = (case v of None \<Rightarrow> True | Some s \<Rightarrow> s \<in> set allowed)"

definition insert_ok :: "state \<Rightarrow> TrackingEvent \<Rightarrow> bool" where
  \<comment> \<open>the constraints of \<open>tracking_events\<close> in the migration: the primary key, the
      foreign key to \<open>shipments\<close>, \<open>NOT NULL\<close> (an empty string is \<open>NULL\<close>), the column
      widths and the two \<open>CHECK\<close> lists. The foreign keys to the milestone and source
      tables are taken to hold, and the precision of the number columns is not
      modelled.\<close>
  "insert_ok st ev =
     (event_id ev \<notin> event_id ` set (tracking_events st)
      \<and> length (event_id ev) \<le> 36
      \<and> te_shipment_id ev \<in> shipment_id ` set (shipments st)
      \<and> event_code ev \<noteq> [] \<and> length (event_code ev) \<le> 20
      \<and> event_description ev \<noteq> [] \<and> length (event_description ev) \<le> 500
      \<and> one_of (event_category ev)
            [''STATUS_UPDATE'', ''LOCATION_UPDATE'', ''MILESTONE'', ''EXCEPTION'',
             ''NOTIFICATION'']
      \<and> fits (event_location ev) 100
      \<and> fits (event_country ev) 2
      \<and> fits (event_city ev) 100
      \<and> fits (airport_code ev) 3
      \<and> event_datetime ev \<noteq> None
      \<and> fits (event_timezone ev) 10
      \<and> fits (milestone_id ev) 36
      \<and> one_of (severity_level ev) [''INFO'', ''WARNING'', ''ERROR'', ''CRITICAL'']
      \<and> fits (source_id ev) 36
      \<and> fits (external_event_id ev) 100
      \<and> fits (source_reference ev) 200
      \<and> fits (created_by ev) 36)"

definition create :: "state \<Rightarrow> TrackingEvent \<Rightarrow> timestamp \<Rightarrow> error option \<times> state" where
  \<comment> \<open>\<open>TrackingEvent.create\<close>: insert the row (\<open>created_at\<close> defaults to the current
      timestamp) and commit, then update the shipment. The result is the error thrown,
      if any; one thrown by the update leaves the committed row.\<close>
  "create st ev now =
     (if insert_ok st ev then
        (let st1 = st\<lparr> tracking_events :=
                        tracking_events st @ [ev\<lparr> created_at := Some now \<rparr>] \<rparr>
         in case updateShipmentStatus st1 ev of
              Inl e \<Rightarrow> (Some e, st1)
            | Inr st2 \<Rightarrow> (None, st2))
      else (Some StoreError, st))"

definition markNotificationSent :: "state \<Rightarrow> TrackingEvent \<Rightarrow> state \<times> TrackingEvent" where
  "markNotificationSent st ev =
     (st\<lparr> tracking_events :=
            map (\<lambda>e. if event_id e = event_id ev then e\<lparr> notification_sent := True \<rparr> else e)
                (tracking_events st) \<rparr>,
      ev\<lparr> notification_sent := True \<rparr>)"

definition within_5_minutes :: "timestamp option \<Rightarrow> timestamp option \<Rightarrow> bool" where
  \<comment> \<open>\<open>ABS(EXTRACT(EPOCH FROM (event_datetime - :eventDatetime))) < 300\<close>; a \<open>NULL\<close>
      operand makes the condition not true\<close>
  "within_5_minutes a b =
     (case (a, b) of (Some x, Some y) \<Rightarrow> \<bar>x - y\<bar> < 300 | _ \<Rightarrow> False)"

definition checkDuplicate ::
  "state \<Rightarrow> string \<Rightarrow> string \<Rightarrow> timestamp option \<Rightarrow> string option \<Rightarrow> bool" where
  "checkDuplicate st shipmentId eventCode eventDatetime externalEventId =
     (let whereConditions =
            [\<lambda>e. te_shipment_id e = shipmentId,
             \<lambda>e. event_code e = eventCode,
             \<lambda>e. within_5_minutes (event_datetime e) eventDatetime]
            @ (if truthy_str externalEventId
               then [\<lambda>e. external_event_id e = externalEventId]
               else []);
          count = length (filter (\<lambda>e. list_all (\<lambda>c. c e) whereConditions) (tracking_events st))
      in count > 0)"

definition createFromExternal ::
  "state \<Rightarrow> TrackingEvent \<Rightarrow> string option \<Rightarrow> string \<Rightarrow> string \<Rightarrow> timestamp
   \<Rightarrow> (error + TrackingEvent) \<times> state" where
  "createFromExternal st externalData sourceId shipmentId uuid now =
     (if checkDuplicate st shipmentId (event_code externalData)
           (event_datetime externalData) (external_event_id externalData)
      then (Inl Duplicate, st)
      else
        let event = TrackingEvent_new
              (externalData\<lparr> event_id := uuid,
                             te_shipment_id := shipmentId,
                             source_id := sourceId,
                             additional_info :=
                               (if truthy_str (additional_info externalData)
                                then additional_info externalData else None),
                             milestone_id := None,
                             is_critical := False,
                             processed := False,
                             notification_sent := False,
                             created_at := None,
                             created_by := None,
                             milestone_name := None,
                             milestone_category := None,
                             source_name := None \<rparr>)
        in (case create st event now of
              (Some e, st1) \<Rightarrow> (Inl e, st1)
            | (None, st1) \<Rightarrow> (Inr event, st1)))"

section \<open>TrackingService\<close>

definition sendTrackingNotifications ::
  "state \<Rightarrow> TrackingEvent \<Rightarrow> Shipment \<Rightarrow> state \<times> TrackingEvent" where
  "sendTrackingNotifications st trackingEvent shipment =
     (let rows = filter
            (\<lambda>sub. sub_shipment_id sub = shipment_id shipment
                  \<and> is_active sub
                  \<and> ((milestone_notifications sub \<and> is_milestone trackingEvent)
                     \<or> (exception_notifications sub \<and> is_exception trackingEvent)
                     \<or> all_events sub))
            (tracking_subscriptions st);
          st1 = st\<lparr> notifications :=
                    notifications st @ map (\<lambda>sub. (sub, event_id trackingEvent)) rows \<rparr>
      in markNotificationSent st1 trackingEvent)"

definition createTrackingEvent ::
  "state \<Rightarrow> string \<Rightarrow> TrackingEvent \<Rightarrow> string option \<Rightarrow> string \<Rightarrow> timestamp
   \<Rightarrow> (error + TrackingEvent) \<times> state" where
  "createTrackingEvent st shipmentId eventData sourceId uuid now =
     (case findById st shipmentId of
        None \<Rightarrow> (Inl ShipmentNotFound, st)
      | Some shipment \<Rightarrow>
          if checkDuplicate st shipmentId (event_code eventData)
               (event_datetime eventData) (external_event_id eventData)
          then (Inl Duplicate, st)
          else
            let trackingEvent = TrackingEvent_new
                  (eventData\<lparr> event_id := uuid,
                              te_shipment_id := shipmentId,
                              event_datetime :=
                                (case event_datetime eventData of
                                   Some t \<Rightarrow> Some t | None \<Rightarrow> Some now),
                              source_id := sourceId,
                              additional_info :=
                                (if truthy_str (additional_info eventData)
                                 then additional_info eventData else None),
                              processed := False,
                              notification_sent := False,
                              created_at := None,
                              milestone_name := None,
                              milestone_category := None,
                              source_name := None \<rparr>)
            in (case create st trackingEvent now of
                  (Some e, st1) \<Rightarrow> (Inl e, st1)
                | (None, st1) \<Rightarrow>
                    if is_milestone trackingEvent \<or> is_exception trackingEvent
                       \<or> is_critical trackingEvent
                    then (let r = sendTrackingNotifications st1 trackingEvent shipment
                          in (Inr (snd r), fst r))
                    else (Inr trackingEvent, st1)))"

subsection \<open>Reading a shipment's tracking\<close>

definition getTrackingHistory :: "state \<Rightarrow> Shipment \<Rightarrow> bool \<Rightarrow> nat \<Rightarrow> TrackingEvent list" where
  \<comment> \<open>\<open>ORDER BY te.event_datetime DESC FETCH FIRST :limit ROWS ONLY\<close>\<close>
  "getTrackingHistory st shipment includeInternal limit =
     take limit
       (rev (sort_key event_datetime
          (filter (\<lambda>e. te_shipment_id e = shipment_id shipment
                      \<and> (includeInternal \<or> customer_visible e))
             (tracking_events st))))"

definition hasExceptions :: "state \<Rightarrow> Shipment \<Rightarrow> bool" where
  "hasExceptions st shipment =
     (length (filter (\<lambda>e. te_shipment_id e = shipment_id shipment \<and> is_exception e)
                (tracking_events st)) > 0)"

text \<open>
  The \<open>trackingInfo\<close> object: \<open>current_status\<close>, \<open>current_location\<close> and
  \<open>estimated_delivery\<close> repeat fields of \<open>shipment\<close>; the aggregate
  \<open>tracking_summary\<close> is left out.
\<close>

record trackingInfo =
  ti_shipment :: Shipment
  ti_tracking_events :: "TrackingEvent list"
  ti_latest_event :: "TrackingEvent option"
  ti_has_exceptions :: bool

definition getTrackingByAwb ::
  "state \<Rightarrow> string \<Rightarrow> bool \<Rightarrow> bool \<Rightarrow> string option \<Rightarrow> error + trackingInfo" where
  "getTrackingByAwb st awbNumber includeHistory includeInternal customerId =
     (case findByAwb st awbNumber of
        None \<Rightarrow> Inl ShipmentNotFound
      | Some shipment \<Rightarrow>
          if truthy_str customerId \<and> Some (customer_id shipment) \<noteq> customerId
          then Inl AccessDenied
          else Inr \<lparr> ti_shipment = shipment,
                     ti_tracking_events =
                       (if includeHistory
                        then getTrackingHistory st shipment includeInternal 100 else []),
                     ti_latest_event =
                       (if includeHistory
                        then (case getTrackingHistory st shipment False 1 of
                                [] \<Rightarrow> None | e # _ \<Rightarrow> Some e)
                        else None),
                     ti_has_exceptions = hasExceptions st shipment \<rparr>)"

definition getTrackingById :: "state \<Rightarrow> string \<Rightarrow> string option \<Rightarrow> error + trackingInfo" where
  "getTrackingById st shipmentId customerId =
     (case findById st shipmentId of
        None \<Rightarrow> Inl ShipmentNotFound
      | Some shipment \<Rightarrow>
          if truthy_str customerId \<and> Some (customer_id shipment) \<noteq> customerId
          then Inl AccessDenied
          else getTrackingByAwb st (awb_number shipment) True False customerId)"

subsection \<open>Refreshing from the external sources\<close>

text \<open>
  The source adapters are outside the model: \<open>getTrackingData\<close> stands for
  \<open>IATAOneRecordService.getTrackingData\<close> (which may fail), \<open>iata_enabled\<close> for
  \<open>config.externalApis.iataOneRecord.enabled\<close>. Each fetched event comes with the id
  that \<open>uuidv4()\<close> gives its \<open>TrackingEvent\<close>.
\<close>

record adapters =
  iata_enabled :: bool
  getTrackingData :: "string \<Rightarrow> error + (TrackingEvent \<times> string) list"

definition getSourceId :: "string \<Rightarrow> string" where
  "getSourceId sourceType =
     (case map_of [(''IATA_ONERECORD'', ''src-iata''), (''AIRLINE'', ''src-airline''),
                   (''CUSTOMS'', ''src-customs''), (''MANUAL'', ''src-manual'')] sourceType of
        Some s \<Rightarrow> s | None \<Rightarrow> ''src-manual'')"

definition fetchTrackingData ::
  "adapters \<Rightarrow> string \<Rightarrow> string \<Rightarrow> error + (TrackingEvent \<times> string) list" where
  \<comment> \<open>the \<open>switch (sourceType)\<close>; the airline and customs fetchers are placeholders
      returning \<open>[]\<close>\<close>
  "fetchTrackingData ad sourceType awbNumber =
     (if sourceType = ''IATA_ONERECORD''
      then (if iata_enabled ad then getTrackingData ad awbNumber else Inr [])
      else if sourceType = ''AIRLINE'' then Inr []
      else if sourceType = ''CUSTOMS'' then Inr []
      else Inl UnsupportedSource)"

fun createAllFromExternal ::
  "state \<Rightarrow> (TrackingEvent \<times> string) list \<Rightarrow> string option \<Rightarrow> string \<Rightarrow> timestamp
   \<Rightarrow> TrackingEvent list \<times> state" where
  \<comment> \<open>the loop over \<open>trackingData\<close>: a failed event is logged and skipped\<close>
  "createAllFromExternal st [] sourceId shipmentId now = ([], st)"
| "createAllFromExternal st ((eventData, uuid) # rest) sourceId shipmentId now =
     (case createFromExternal st eventData sourceId shipmentId uuid now of
        (Inl e, st1) \<Rightarrow> createAllFromExternal st1 rest sourceId shipmentId now
      | (Inr trackingEvent, st1) \<Rightarrow>
          (let r = createAllFromExternal st1 rest sourceId shipmentId now
           in (trackingEvent # fst r, snd r)))"

definition updateTrackingConfig :: "state \<Rightarrow> Shipment \<Rightarrow> bool \<Rightarrow> int \<Rightarrow> state" where
  \<comment> \<open>the \<open>UPDATE\<close> sets \<open>tracking_enabled\<close> and \<open>tracking_frequency_minutes\<close> only; a
      \<open>last_tracked_at\<close> in \<open>config\<close> is not read\<close>
  "updateTrackingConfig st shipment enabled freq =
     st\<lparr> shipments :=
          map (\<lambda>s. if shipment_id s = shipment_id shipment
                    then s\<lparr> tracking_enabled := enabled, tracking_frequency_minutes := freq \<rparr>
                    else s) (shipments st) \<rparr>"

definition updateTrackingFromExternal ::
  "state \<Rightarrow> adapters \<Rightarrow> string \<Rightarrow> string \<Rightarrow> timestamp \<Rightarrow> (error + TrackingEvent list) \<times> state" where
  "updateTrackingFromExternal st ad awbNumber sourceType now =
     (case findByAwb st awbNumber of
        None \<Rightarrow> (Inl ShipmentNotFound, st)
      | Some shipment \<Rightarrow>
          if \<not> tracking_enabled shipment then (Inl TrackingDisabled, st)
          else (case fetchTrackingData ad sourceType awbNumber of
                  Inl e \<Rightarrow> (Inl e, st)
                | Inr trackingData \<Rightarrow>
                    (let r = createAllFromExternal st trackingData
                               (Some (getSourceId sourceType)) (shipment_id shipment) now;
                         st2 = updateTrackingConfig (snd r) shipment
                                 (tracking_enabled shipment) (tracking_frequency_minutes shipment)
                     in (Inr (fst r), st2))))"

subsection \<open>The poll scheduler\<close>

definition update_due :: "timestamp \<Rightarrow> Shipment \<Rightarrow> bool" where
  \<comment> \<open>the \<open>WHERE\<close> clause of \<open>getShipmentsForUpdate\<close>; \<open>SYSDATE\<close> is \<open>now\<close>, and
      \<open>tracking_frequency_minutes / 1440\<close> days are \<open>60 * tracking_frequency_minutes\<close>
      seconds. A \<open>NULL\<close> status makes \<open>NOT IN\<close> not true.\<close>
  "update_due now s =
     (tracking_enabled s
      \<and> (case current_status s of
            None \<Rightarrow> False
          | Some c \<Rightarrow> c \<notin> {''DELIVERED'', ''CANCELLED''})
      \<and> (case last_tracked_at s of
            None \<Rightarrow> True
          | Some t \<Rightarrow> t < now - 60 * tracking_frequency_minutes s))"

definition getShipmentsForUpdate :: "state \<Rightarrow> timestamp \<Rightarrow> Shipment list" where
  \<comment> \<open>\<open>ORDER BY last_tracked_at ASC NULLS FIRST FETCH FIRST 100 ROWS ONLY\<close>; the rows
      returned carry \<open>shipment_id\<close>, \<open>awb_number\<close>, \<open>tracking_frequency_minutes\<close> and
      \<open>last_tracked_at\<close> of these shipments\<close>
  "getShipmentsForUpdate st now =
     take 100 (sort_key last_tracked_at (filter (update_due now) (shipments st)))"

fun updateEach :: "state \<Rightarrow> adapters \<Rightarrow> Shipment list \<Rightarrow> timestamp \<Rightarrow> state" where
  "updateEach st ad [] now = st"
| "updateEach st ad (shipment # rest) now =
     updateEach (snd (updateTrackingFromExternal st ad (awb_number shipment)
                        ''IATA_ONERECORD'' now)) ad rest now"

definition processAutomaticUpdates :: "state \<Rightarrow> adapters \<Rightarrow> timestamp \<Rightarrow> state" where
  "processAutomaticUpdates st ad now = updateEach st ad (getShipmentsForUpdate st now) now"

section \<open>Serialization\<close>

text \<open>
  The object \<open>toJSON\<close> returns: an object is the list of its keys and values in the
  order they are set. \<open>JDate\<close> is a \<open>Date\<close>; \<open>JParsed s\<close> is \<open>JSON.parse(s)\<close>, or
  \<open>s\<close> itself when it does not parse. A missing property is \<open>JNull\<close>.
\<close>

datatype json =
    JNull
  | JBool bool
  | JNum real
  | JStr string
  | JDate timestamp
  | JParsed string
  | JObj "(string \<times> json) list"

definition jstr :: "string option \<Rightarrow> json" where
  "jstr v = (case v of None \<Rightarrow> JNull | Some s \<Rightarrow> JStr s)"

definition jnum :: "real option \<Rightarrow> json" where
  "jnum v = (case v of None \<Rightarrow> JNull | Some x \<Rightarrow> JNum x)"

definition jdate :: "timestamp option \<Rightarrow> json" where
  "jdate v = (case v of None \<Rightarrow> JNull | Some t \<Rightarrow> JDate t)"

definition toJSON :: "TrackingEvent \<Rightarrow> (string \<times> json) list" where
  "toJSON this =
     [(''event_id'', JStr (event_id this)),
      (''shipment_id'', JStr (te_shipment_id this)),
      (''event_code'', JStr (event_code this)),
      (''event_description'', JStr (event_description this)),
      (''event_category'', jstr (event_category this)),
      (''event_location'', jstr (event_location this)),
      (''event_country'', jstr (event_country this)),
      (''event_city'', jstr (event_city this)),
      (''airport_code'', jstr (airport_code this)),
      (''event_datetime'', jdate (event_datetime this)),
      (''event_timezone'', jstr (event_timezone this)),
      (''is_milestone'', JBool (is_milestone this)),
      (''is_exception'', JBool (is_exception this)),
      (''is_critical'', JBool (is_critical this)),
      (''severity_level'', jstr (severity_level this)),
      (''created_at'', jdate (created_at this))]
     @ (if truthy_str (milestone_name this)
        then [(''milestone'', JObj
                [(''milestone_id'', jstr (milestone_id this)),
                 (''milestone_name'', jstr (milestone_name this)),
                 (''milestone_category'', jstr (milestone_category this))])]
        else [])
     @ (if truthy_str (source_name this)
        then [(''source'', JObj
                [(''source_id'', jstr (source_id this)),
                 (''source_name'', jstr (source_name this))])]
        else [])
     @ (if truthy_num (longitude this) \<and> truthy_num (latitude this)
        then [(''coordinates'', JObj
                [(''longitude'', jnum (longitude this)),
                 (''latitude'', jnum (latitude this))])]
        else [])
     @ (if truthy_num (temperature_celsius this) \<or> truthy_num (humidity_percent this)
        then [(''environmental_data'', JObj
                [(''temperature_celsius'', jnum (temperature_celsius this)),
                 (''humidity_percent'', jnum (humidity_percent this))])]
        else [])
     @ (if truthy_str (additional_info this)
        then [(''additional_info'', (case additional_info this of
                                       Some a \<Rightarrow> JParsed a | None \<Rightarrow> JNull))]
        else [])"

definition has_key :: "(string \<times> json) list \<Rightarrow> string \<Rightarrow> bool" where
  "has_key obj k = (k \<in> fst ` set obj)"

section \<open>RealTimeTrackingService\<close>

text \<open>
  The hub keeps \<open>connectedClients\<close> (by socket id) and \<open>roomSubscriptions\<close> (a
  \<open>Map\<close>, kept in insertion order). \<open>rooms\<close> is the socket server's own room
  membership, which \<open>socket.join\<close> changes and \<open>io.to(room).emit\<close> reads. \<open>outbox\<close>
  holds what has been emitted to each socket, oldest first.
\<close>

record clientInfo =
  userId :: "string option"
  customerId :: "string option"
  authenticated :: bool
  subscriptions :: "string option set"

record eventData =
  ed_shipmentId :: string
  ed_awbNumber :: string
  ed_event :: "(string \<times> json) list"
  ed_current_status :: "string option"
  ed_current_location :: "string option"
  ed_estimated_delivery_date :: "timestamp option"
  ed_timestamp :: timestamp

record notification =
  title :: string
  body :: string
  ntype :: string

text \<open>
  A message is the name of the socket event and what is sent with it.
\<close>

datatype payload =
    AuthPayload "string option" "string option" timestamp
  | ErrorPayload error
  | TrackingInfoPayload "string option" trackingInfo
  | SubscribedPayload "string option" "string option" string timestamp
  | CustomerSubscribedPayload "string option" string timestamp
  | EventPayload eventData
  | CustomerUpdatePayload string eventData
  | CriticalPayload eventData notification

type_synonym message = "string \<times> payload"

record hub =
  connectedClients :: "string \<rightharpoonup> clientInfo"
  roomSubscriptions :: "(string \<times> string set) list"
  rooms :: "string \<Rightarrow> string set"
  outbox :: "string \<Rightarrow> message list"

definition emit :: "hub \<Rightarrow> string \<Rightarrow> message \<Rightarrow> hub" where
  \<comment> \<open>\<open>socket.emit\<close>\<close>
  "emit h socket m = h\<lparr> outbox := (outbox h)(socket := outbox h socket @ [m]) \<rparr>"

definition emit_to :: "hub \<Rightarrow> string \<Rightarrow> message \<Rightarrow> hub" where
  \<comment> \<open>\<open>io.to(room).emit\<close>: every socket joined to the room\<close>
  "emit_to h room m =
     h\<lparr> outbox := (\<lambda>socket. if socket \<in> rooms h room
                              then outbox h socket @ [m] else outbox h socket) \<rparr>"

definition join :: "hub \<Rightarrow> string \<Rightarrow> string \<Rightarrow> hub" where
  \<comment> \<open>\<open>socket.join\<close>\<close>
  "join h socket room = h\<lparr> rooms := (rooms h)(room := insert socket (rooms h room)) \<rparr>"

definition template :: "string option \<Rightarrow> string" where
  \<comment> \<open>a value inside a template literal\<close>
  "template v = (case v of None \<Rightarrow> ''undefined'' | Some s \<Rightarrow> s)"

fun room_add :: "(string \<times> string set) list \<Rightarrow> string \<Rightarrow> string \<Rightarrow> (string \<times> string set) list" where
  \<comment> \<open>\<open>if (!has(room)) set(room, new Set()); get(room).add(socket)\<close>\<close>
  "room_add [] room socket = [(room, {socket})]"
| "room_add ((r, clients) # rest) room socket =
     (if r = room then (r, insert socket clients) # rest
      else (r, clients) # room_add rest room socket)"

definition handleAuthentication ::
  "hub \<Rightarrow> string \<Rightarrow> string option \<Rightarrow> string option \<Rightarrow> timestamp \<Rightarrow> hub" where
  \<comment> \<open>the token is not verified: the ids the client sends are taken as they are\<close>
  "handleAuthentication h socket uid cid now =
     emit
       (case connectedClients h socket of
          None \<Rightarrow> h
        | Some ci \<Rightarrow>
            h\<lparr> connectedClients := (connectedClients h)
                 (socket \<mapsto> ci\<lparr> userId := uid, customerId := cid, authenticated := True \<rparr>) \<rparr>)
       socket (''authenticated'', AuthPayload uid cid now)"

definition handleShipmentSubscription ::
  "hub \<Rightarrow> state \<Rightarrow> string \<Rightarrow> string option \<Rightarrow> string option \<Rightarrow> timestamp \<Rightarrow> error + hub" where
  "handleShipmentSubscription h st socket shipmentId awbNumber now =
     (case connectedClients h socket of
        None \<Rightarrow> Inl AuthenticationRequired
      | Some ci \<Rightarrow>
          if \<not> authenticated ci then Inl AuthenticationRequired
          else
            (case (if truthy_str awbNumber \<and> \<not> truthy_str shipmentId
                   then (case findByAwb st (template awbNumber) of
                           None \<Rightarrow> Inl ShipmentNotFound
                         | Some shipment \<Rightarrow>
                             if truthy_str (customerId ci)
                                \<and> Some (customer_id shipment) \<noteq> customerId ci
                             then Inl AccessDenied
                             else Inr (Some (shipment_id shipment)))
                   else Inr shipmentId) of
               Inl e \<Rightarrow> Inl e
             | Inr actualShipmentId \<Rightarrow>
                 (let roomName = ''shipment:'' @ template actualShipmentId;
                      h1 = join h socket roomName;
                      h2 = h1\<lparr> connectedClients := (connectedClients h1)
                                (socket \<mapsto> ci\<lparr> subscriptions :=
                                               insert actualShipmentId (subscriptions ci) \<rparr>),
                              roomSubscriptions :=
                                room_add (roomSubscriptions h1) roomName socket \<rparr>;
                      h3 = (case (case actualShipmentId of
                                    None \<Rightarrow> Inl ShipmentNotFound
                                  | Some i \<Rightarrow> getTrackingById st i (customerId ci)) of
                              Inl e \<Rightarrow> h2
                            | Inr info \<Rightarrow> emit h2 socket
                                (''tracking_update'', TrackingInfoPayload actualShipmentId info))
                  in Inr (emit h3 socket
                            (''subscribed'',
                             SubscribedPayload actualShipmentId awbNumber roomName now)))))"

definition on_subscribe_shipment ::
  "hub \<Rightarrow> state \<Rightarrow> string \<Rightarrow> string option \<Rightarrow> string option \<Rightarrow> timestamp \<Rightarrow> hub" where
  \<comment> \<open>the \<open>subscribe_shipment\<close> listener: an error is reported to the socket\<close>
  "on_subscribe_shipment h st socket shipmentId awbNumber now =
     (case handleShipmentSubscription h st socket shipmentId awbNumber now of
        Inl e \<Rightarrow> emit h socket (''subscription_error'', ErrorPayload e)
      | Inr h1 \<Rightarrow> h1)"

definition handleCustomerSubscription ::
  "hub \<Rightarrow> string \<Rightarrow> string option \<Rightarrow> timestamp \<Rightarrow> error + hub" where
  "handleCustomerSubscription h socket cid now =
     (case connectedClients h socket of
        None \<Rightarrow> Inl AuthenticationRequired
      | Some ci \<Rightarrow>
          if \<not> authenticated ci then Inl AuthenticationRequired
          else if customerId ci \<noteq> cid then Inl AccessDenied
          else (let roomName = ''customer:'' @ template cid
                in Inr (emit (join h socket roomName) socket
                          (''customer_subscribed'',
                           CustomerSubscribedPayload cid roomName now))))"

definition broadcastTrackingEvent :: "hub \<Rightarrow> TrackingEvent \<Rightarrow> Shipment \<Rightarrow> timestamp \<Rightarrow> hub" where
  "broadcastTrackingEvent h trackingEvent shipment now =
     (let roomName = ''shipment:'' @ te_shipment_id trackingEvent;
          customerRoom = ''customer:'' @ customer_id shipment;
          eventData = \<lparr> ed_shipmentId = te_shipment_id trackingEvent,
                        ed_awbNumber = awb_number shipment,
                        ed_event = toJSON trackingEvent,
                        ed_current_status = current_status shipment,
                        ed_current_location = current_location shipment,
                        ed_estimated_delivery_date = estimated_delivery_date shipment,
                        ed_timestamp = now \<rparr>;
          h1 = emit_to h roomName (''tracking_event'', EventPayload eventData);
          h2 = emit_to h1 customerRoom
                 (''customer_tracking_update'',
                  CustomerUpdatePayload (customer_id shipment) eventData)
      in if is_critical trackingEvent \<or> is_exception trackingEvent \<or> is_milestone trackingEvent
         then emit_to h2 roomName
                (''critical_update'', CriticalPayload eventData
                   \<lparr> title = awb_number shipment @ '' - '' @ event_description trackingEvent,
                     body = (if truthy_str (event_location trackingEvent)
                             then ''Location: '' @ template (event_location trackingEvent)
                             else []),
                     ntype = (if is_exception trackingEvent
                              then ''exception'' else ''milestone'') \<rparr>)
         else h2)"

subsection \<open>The periodic updater\<close>

definition startsWith :: "string \<Rightarrow> string \<Rightarrow> bool" where
  "startsWith s p = (take (length p) s = p)"

definition activeShipments :: "hub \<Rightarrow> string list" where
  \<comment> \<open>the ids of the shipment rooms that have a client; \<open>replace\<close> removes the prefix
      the room name was just found to start with\<close>
  "activeShipments h =
     remdups
       (map (\<lambda>(roomName, clients). drop (length ''shipment:'') roomName)
          (filter (\<lambda>(roomName, clients). startsWith roomName ''shipment:'' \<and> clients \<noteq> {})
             (roomSubscriptions h)))"

definition findByShipment :: "state \<Rightarrow> string \<Rightarrow> nat \<Rightarrow> TrackingEvent list" where
  \<comment> \<open>with the default options: customer-visible events, latest \<open>event_datetime\<close> first\<close>
  "findByShipment st shipmentId limit =
     take limit
       (rev (sort_key event_datetime
          (filter (\<lambda>e. te_shipment_id e = shipmentId \<and> customer_visible e)
             (tracking_events st))))"

fun broadcastAll :: "hub \<Rightarrow> TrackingEvent list \<Rightarrow> Shipment \<Rightarrow> timestamp \<Rightarrow> hub" where
  "broadcastAll h [] shipment now = h"
| "broadcastAll h (event # rest) shipment now =
     broadcastAll (broadcastTrackingEvent h event shipment now) rest shipment now"

definition periodicUpdate ::
  "hub \<Rightarrow> state \<Rightarrow> adapters \<Rightarrow> string \<Rightarrow> timestamp \<Rightarrow> hub \<times> state" where
  \<comment> \<open>the body run for one active shipment\<close>
  "periodicUpdate h st ad shipmentId now =
     (case findById st shipmentId of
        None \<Rightarrow> (h, st)
      | Some shipment \<Rightarrow>
          if \<not> tracking_enabled shipment \<or> current_status shipment = Some ''DELIVERED''
          then (h, st)
          else (case updateTrackingFromExternal st ad (awb_number shipment)
                       ''IATA_ONERECORD'' now of
                  (Inl e, st1) \<Rightarrow> (h, st1)
                | (Inr created, st1) \<Rightarrow>
                    if length created > 0
                    then (broadcastAll h (findByShipment st1 shipmentId (length created))
                            shipment now, st1)
                    else (h, st1)))"

fun periodicUpdates ::
  "hub \<Rightarrow> state \<Rightarrow> adapters \<Rightarrow> string list \<Rightarrow> timestamp \<Rightarrow> hub \<times> state" where
  "periodicUpdates h st ad [] now = (h, st)"
| "periodicUpdates h st ad (shipmentId # rest) now =
     (let r = periodicUpdate h st ad shipmentId now
      in periodicUpdates (fst r) (snd r) ad rest now)"

definition processPeriodicUpdates :: "hub \<Rightarrow> state \<Rightarrow> adapters \<Rightarrow> timestamp \<Rightarrow> hub \<times> state" where
  \<comment> \<open>the updates of the active shipments are started together; here they run one
      after the other, in the order of \<open>activeShipments\<close>\<close>
  "processPeriodicUpdates h st ad now = periodicUpdates h st ad (activeShipments h) now"

section \<open>The rules as the specification words them\<close>

definition duplicate_spec ::
  "state \<Rightarrow> string \<Rightarrow> string \<Rightarrow> timestamp option \<Rightarrow> string option \<Rightarrow> bool" where
  \<comment> \<open>same shipment, same code, within 300 s, and the same external id when both have
      one, or no external id on either side\<close>
  "duplicate_spec st shipmentId eventCode eventDatetime externalEventId =
     (\<exists>e \<in> set (tracking_events st).
        te_shipment_id e = shipmentId
        \<and> event_code e = eventCode
        \<and> within_5_minutes (event_datetime e) eventDatetime
        \<and> ((truthy_str externalEventId \<and> truthy_str (external_event_id e)
             \<and> external_event_id e = externalEventId)
            \<or> (\<not> truthy_str externalEventId \<and> \<not> truthy_str (external_event_id e))))"

text \<open>
  When an event matches a subscription, and when a shipment is due for a poll.
\<close>

definition matches_spec :: "subscription \<Rightarrow> TrackingEvent \<Rightarrow> bool" where
  "matches_spec sub e =
     (all_events sub
      \<or> (milestone_notifications sub \<and> is_milestone e)
      \<or> (exception_notifications sub \<and> is_exception e)
      \<or> (location_updates sub \<and> event_category e = Some ''LOCATION_UPDATE''))"

definition due_spec :: "timestamp \<Rightarrow> Shipment \<Rightarrow> bool" where
  "due_spec now s =
     (tracking_enabled s
      \<and> current_status s \<notin> {Some ''DELIVERED'', Some ''CANCELLED''}
      \<and> (case last_tracked_at s of
            None \<Rightarrow> True
          | Some t \<Rightarrow> now - t \<ge> 60 * tracking_frequency_minutes s))"

text \<open>
  The derivation rule: the status of the event with the greatest
  \<open>(event_datetime, created_at)\<close> among the shipment's events whose code maps to a
  status.
\<close>

definition spec_key :: "TrackingEvent \<Rightarrow> timestamp option \<times> timestamp option" where
  "spec_key e = (event_datetime e, created_at e)"

definition winning_event :: "state \<Rightarrow> string \<Rightarrow> TrackingEvent option" where
  "winning_event st shipmentId =
     (case rev (sort_key spec_key
                  (filter (\<lambda>e. te_shipment_id e = shipmentId
                              \<and> statusMapping (event_code e) \<noteq> None)
                     (tracking_events st))) of
        [] \<Rightarrow> None
      | e # _ \<Rightarrow> Some e)"

definition derived_status_spec :: "state \<Rightarrow> string \<Rightarrow> string option" where
  "derived_status_spec st shipmentId =
     (case winning_event st shipmentId of
        None \<Rightarrow> None
      | Some e \<Rightarrow> statusMapping (event_code e))"

section \<open>What an apply does to the store\<close>

text \<open>
  \<open>status_bearing\<close> is the test that guards \<open>updateShipmentStatus\<close>, \<open>ship_update\<close>
  the change that one event makes to one row of \<open>shipments\<close>. \<open>applied st row st'\<close>
  relates the store before and after \<open>row\<close> is inserted and applied; the
  \<open>notification_sent\<close> marks, which are set afterwards, are not compared.
  \<open>flagged\<close> is the test that guards the sending of notifications.
\<close>

definition status_bearing :: "TrackingEvent \<Rightarrow> bool" where
  "status_bearing e = (is_milestone e \<or> event_category e = Some ''STATUS_UPDATE'')"

definition ship_update :: "TrackingEvent \<Rightarrow> Shipment \<Rightarrow> Shipment" where
  "ship_update ev s =
     (if shipment_id s = te_shipment_id ev \<and> status_bearing ev
         \<and> statusMapping_at (event_code ev) \<noteq> Inherited
      then s\<lparr> current_status := statusMapping (event_code ev),
              current_location := event_location ev,
              last_tracked_at := event_datetime ev,
              delivery_date := (if event_code ev = ''DELIVERED''
                                then event_datetime ev else delivery_date s) \<rparr>
      else s)"

definition unmark :: "TrackingEvent \<Rightarrow> TrackingEvent" where
  "unmark e = e\<lparr> notification_sent := False \<rparr>"

definition applied :: "state \<Rightarrow> TrackingEvent \<Rightarrow> state \<Rightarrow> bool" where
  "applied st row st' =
     (shipments st' = map (ship_update row) (shipments st)
      \<and> map unmark (tracking_events st') = map unmark (tracking_events st) @ [unmark row])"

definition flagged :: "TrackingEvent \<Rightarrow> bool" where
  "flagged e = (is_milestone e \<or> is_exception e \<or> is_critical e)"

text \<open>
  An apply is a call of \<open>createTrackingEvent\<close> (by hand) or of \<open>createFromExternal\<close>
  (from a source adapter), with its arguments; \<open>apply_to\<close> gives the store it leaves,
  and \<open>foldl apply_to\<close> runs a sequence of applies.
\<close>

datatype apply_call =
    Manual string TrackingEvent "string option" string timestamp
  | External TrackingEvent "string option" string string timestamp

fun apply_to :: "state \<Rightarrow> apply_call \<Rightarrow> state" where
  "apply_to st (Manual shipmentId eventData sourceId uuid now) =
     snd (createTrackingEvent st shipmentId eventData sourceId uuid now)"
| "apply_to st (External externalData sourceId shipmentId uuid now) =
     snd (createFromExternal st externalData sourceId shipmentId uuid now)"

text \<open>
  \<open>rows_of st i\<close> are the rows of shipment \<open>i\<close>. \<open>applied_codes st i\<close> lists, in the
  order of their insertion, the codes of the shipment's status-bearing events, and
  \<open>delivered_times st i\<close> the times of those with the code \<open>DELIVERED\<close>.
  \<open>status_follows_applies st i\<close> says that shipment \<open>i\<close> has the status mapped from
  the last of its \<open>applied_codes\<close>, when that code has a mapping;
  \<open>delivery_follows_applies st i\<close> says that its \<open>delivery_date\<close> is the last of its
  \<open>delivered_times\<close>, and unset when there is none. Both hold of a shipment that has
  no events and no \<open>delivery_date\<close>.
\<close>

definition rows_of :: "state \<Rightarrow> string \<Rightarrow> Shipment list" where
  "rows_of st shipmentId = filter (\<lambda>s. shipment_id s = shipmentId) (shipments st)"



definition delivered_times :: "state \<Rightarrow> string \<Rightarrow> timestamp option list" where
  "delivered_times st shipmentId =
     map event_datetime
       (filter (\<lambda>e. te_shipment_id e = shipmentId \<and> status_bearing e
                   \<and> event_code e = ''DELIVERED'') (tracking_events st))"

definition delivery_follows_applies :: "state \<Rightarrow> string \<Rightarrow> bool" where
  "delivery_follows_applies st shipmentId =
     (\<forall>sh \<in> set (rows_of st shipmentId).
        delivery_date sh = (case rev (delivered_times st shipmentId) of
                              [] \<Rightarrow> None
                            | t # _ \<Rightarrow> t))"

section \<open>Scenarios\<close>

text \<open>
  The seed shipment: AWB 125-12345678 from SIN to HKG, owned by customer \<open>c-1\<close>.
  \<open>event_at code t loc\<close> is a milestone event with nothing but its code, time and
  location filled in.
\<close>

definition shipment_S1 :: Shipment where
  "shipment_S1 =
     \<lparr> shipment_id = ''s-1'', awb_number = ''125-12345678'', customer_id = ''c-1'',
       origin_airport = ''SIN'', destination_airport = ''HKG'',
       current_status = Some ''CREATED'', current_location = None,
       pickup_date = None, delivery_date = None, estimated_delivery_date = None,
       tracking_enabled = True, last_tracked_at = None, tracking_frequency_minutes = 30 \<rparr>"

definition event_at :: "string \<Rightarrow> timestamp \<Rightarrow> string \<Rightarrow> TrackingEvent" where
  "event_at code t loc =
     \<lparr> event_id = [], te_shipment_id = [], event_code = code, event_description = code,
       event_category = None, event_location = Some loc, event_country = None,
       event_city = None, airport_code = Some loc, event_datetime = Some t,
       event_timezone = None, milestone_id = None, is_milestone = True,
       is_exception = False, is_critical = False, severity_level = None,
       source_id = None, external_event_id = None, source_reference = None,
       additional_info = None, longitude = None, latitude = None,
       temperature_celsius = None, humidity_percent = None, processed = False,
       notification_sent = False, customer_visible = True, created_at = None,
       created_by = None, milestone_name = None, milestone_category = None,
       source_name = None \<rparr>"

definition state0 :: state where
  "state0 = \<lparr> shipments = [shipment_S1], tracking_events = [],
              tracking_subscriptions = [], notifications = [] \<rparr>"

definition state_S1 :: state where
  \<comment> \<open>CARGO_COLLECTED at 2025-08-05T10:00:00Z in SIN, entered by hand\<close>
  "state_S1 = snd (createTrackingEvent state0 ''s-1''
                (event_at ''CARGO_COLLECTED'' 1754388000 ''SIN'') (Some ''src-manual'')
                ''e-1'' 1754388000)"

definition state_ext :: state where
  \<comment> \<open>the same event, from the industry feed, with an external id\<close>
  "state_ext = snd (createTrackingEvent state0 ''s-1''
                ((event_at ''CARGO_COLLECTED'' 1754388000 ''SIN'')
                   \<lparr> external_event_id := Some ''LE-1'' \<rparr>) (Some ''src-iata'')
                ''e-1'' 1754388000)"

definition equator_event :: TrackingEvent where
  \<comment> \<open>a reading on the equator, at 0 degrees Celsius\<close>
  "equator_event =
     (event_at ''LOCATION_UPDATE'' 1754388000 ''SIN'')
       \<lparr> longitude := Some (10379 / 100), latitude := Some 0,
         temperature_celsius := Some 0 \<rparr>"

text \<open>
  Scenario S3 and its variants: after S1, DELIVERED at 2025-08-07T12:00:00Z in HKG
  and FLIGHT_DEPARTED at 2025-08-05T14:00:00Z in SIN, applied in either order; and a
  DELIVERED followed by an OUT_FOR_DELIVERY scan that is dated half an hour after it.
\<close>

definition state_delivered :: state where
  "state_delivered = snd (createTrackingEvent state_S1 ''s-1''
                (event_at ''DELIVERED'' 1754568000 ''HKG'') (Some ''src-manual'')
                ''e-2'' 1754570000)"



definition state_late_scan :: state where
  "state_late_scan = snd (createTrackingEvent state_delivered ''s-1''
                (event_at ''OUT_FOR_DELIVERY'' 1754569800 ''HKG'') (Some ''src-manual'')
                ''e-3'' 1754570060)"

text \<open>
  The same applies as calls: \<open>apply_to state_S1 delivery = state_delivered\<close>,
  \<open>apply_to state_delivered late_departure = state_S3\<close> and
  \<open>apply_to state_delivered late_scan = state_late_scan\<close>. \<open>applies_s2\<close> is
  scenario S3 for a second shipment, \<open>s-2\<close>.
\<close>

definition delivery :: apply_call where
  "delivery = Manual ''s-1'' (event_at ''DELIVERED'' 1754568000 ''HKG'')
                (Some ''src-manual'') ''e-2'' 1754570000"


definition late_scan :: apply_call where
  "late_scan = Manual ''s-1'' (event_at ''OUT_FOR_DELIVERY'' 1754569800 ''HKG'')
                 (Some ''src-manual'') ''e-3'' 1754570060"

definition applies_s2 :: "apply_call list" where
  "applies_s2 =
     [Manual ''s-2'' (event_at ''CARGO_COLLECTED'' 1754388000 ''SIN'')
        (Some ''src-manual'') ''e-4'' 1754388000,
      Manual ''s-2'' (event_at ''DELIVERED'' 1754568000 ''HKG'')
        (Some ''src-manual'') ''e-5'' 1754570000,
      External (event_at ''FLIGHT_DEPARTED'' 1754402400 ''SIN'')
        (Some ''src-iata'') ''s-2'' ''e-6'' 1754570060]"

text \<open>
  Four subscriptions of customer \<open>c-1\<close> on the seed shipment, one for each method:
  milestones only, location updates only, all events, and milestones with location
  updates. \<open>location_update\<close> is a plain position report, \<open>flight_arrived\<close> the
  milestone of scenario S4, \<open>arrival_position\<close> a milestone reported in the category
  \<open>LOCATION_UPDATE\<close>.
\<close>

definition subscription_of ::
  "string \<Rightarrow> string \<Rightarrow> bool \<Rightarrow> bool \<Rightarrow> bool \<Rightarrow> bool \<Rightarrow> subscription" where
  "subscription_of i method m e l a =
     \<lparr> subscription_id = i, sub_shipment_id = ''s-1'', sub_customer_id = ''c-1'',
       notification_method = method, notification_endpoint = Some ''ops@example.com'',
       milestone_notifications = m, exception_notifications = e,
       location_updates = l, all_events = a, is_active = True \<rparr>"

definition sub_milestone :: subscription where
  "sub_milestone = subscription_of ''sub-milestone'' ''EMAIL'' True False False False"

definition sub_location :: subscription where
  "sub_location = subscription_of ''sub-location'' ''SMS'' False False True False"

definition sub_all :: subscription where
  "sub_all = subscription_of ''sub-all'' ''WEBHOOK'' False False False True"

definition sub_both :: subscription where
  "sub_both = subscription_of ''sub-both'' ''PUSH'' True False True False"

definition state_subs :: state where
  "state_subs =
     state_S1\<lparr> tracking_subscriptions :=
                 [sub_milestone, sub_location, sub_all, sub_both] \<rparr>"

definition arrival_position :: TrackingEvent where
  "arrival_position =
     (event_at ''FLIGHT_ARRIVED'' 1754467200 ''HKG'')
       \<lparr> event_category := Some ''LOCATION_UPDATE'' \<rparr>"

definition location_update :: TrackingEvent where
  "location_update =
     (event_at ''LOCATION_UPDATE'' 1754395200 ''SIN'')
       \<lparr> event_category := Some ''LOCATION_UPDATE'', is_milestone := False \<rparr>"

definition flight_arrived :: TrackingEvent where
  "flight_arrived = event_at ''FLIGHT_ARRIVED'' 1754467200 ''HKG''"

text \<open>
  The seed shipment after S1, and the store after an administrator has cancelled it.
  Two sockets are connected. In \<open>hub_A\<close> the first has authenticated for customer
  \<open>c-1\<close> and subscribed to the shipment by its AWB; in \<open>hub_S4\<close> the second has
  authenticated for \<open>c-1\<close> too and subscribed to the customer's updates; in \<open>hub_B\<close>
  the second has authenticated for another customer, \<open>c-2\<close>, and subscribed to the
  shipment by its id. \<open>feed\<close> is an industry feed that reports the arrival in HKG.
\<close>

definition shipment_booked :: Shipment where
  "shipment_booked =
     shipment_S1\<lparr> current_status := Some ''BOOKED'', current_location := Some ''SIN'',
                   last_tracked_at := Some 1754388000 \<rparr>"

definition state_cancelled :: state where
  "state_cancelled = delete_shipment state_S1 shipment_booked"

definition state_two :: state where
  \<comment> \<open>the cancelled shipment and a new one, without events, in one store\<close>
  "state_two =
     state_cancelled\<lparr> shipments :=
       shipments state_cancelled
       @ [shipment_S1\<lparr> shipment_id := ''s-2'', awb_number := ''125-87654321'' \<rparr>] \<rparr>"

definition hub_connected :: hub where
  "hub_connected =
     \<lparr> connectedClients =
         [''sock-A'' \<mapsto> \<lparr> userId = None, customerId = None, authenticated = False,
                          subscriptions = {} \<rparr>,
          ''sock-B'' \<mapsto> \<lparr> userId = None, customerId = None, authenticated = False,
                          subscriptions = {} \<rparr>],
       roomSubscriptions = [],
       rooms = (\<lambda>room. {}),
       outbox = (\<lambda>socket. []) \<rparr>"

definition hub_A :: hub where
  "hub_A =
     on_subscribe_shipment
       (handleAuthentication hub_connected ''sock-A'' (Some ''u-1'') (Some ''c-1'') 1754388100)
       state_S1 ''sock-A'' None (Some ''125-12345678'') 1754388200"

definition feed :: adapters where
  "feed =
     \<lparr> iata_enabled = True,
       getTrackingData =
         (\<lambda>awb. Inr [((event_at ''FLIGHT_ARRIVED'' 1754467200 ''HKG'')
                         \<lparr> external_event_id := Some ''LE-7'' \<rparr>, ''e-9'')]) \<rparr>"

definition hub_B :: hub where
  "hub_B =
     on_subscribe_shipment
       (handleAuthentication hub_connected ''sock-B'' (Some ''u-2'') (Some ''c-2'') 1754388100)
       state_S1 ''sock-B'' (Some ''s-1'') None 1754388200"

definition hub_S4 :: hub where
  "hub_S4 =
     (case handleCustomerSubscription
             (handleAuthentication hub_A ''sock-B'' (Some ''u-2'') (Some ''c-1'') 1754388300)
             ''sock-B'' (Some ''c-1'') 1754388400 of
        Inr h \<Rightarrow> h
      | Inl e \<Rightarrow> hub_A)"

definition flight_arrived_row :: TrackingEvent where
  "flight_arrived_row =
     (event_at ''FLIGHT_ARRIVED'' 1754467200 ''HKG'')
       \<lparr> event_id := ''e-2'', te_shipment_id := ''s-1'' \<rparr>"

section \<open>Properties\<close>

lemmas scenario_defs = state0_def shipment_S1_def event_at_def

lemma state_S1_eq:
  "state_S1 =
     \<lparr> shipments = [shipment_S1\<lparr> current_status := Some ''BOOKED'',
                                  current_location := Some ''SIN'',
                                  last_tracked_at := Some 1754388000 \<rparr>],
       tracking_events =
         [(event_at ''CARGO_COLLECTED'' 1754388000 ''SIN'')
            \<lparr> event_id := ''e-1'', te_shipment_id := ''s-1'',
              event_category := Some ''STATUS_UPDATE'', event_timezone := Some ''UTC'',
              severity_level := Some ''INFO'', source_id := Some ''src-manual'',
              notification_sent := True, created_at := Some 1754388000 \<rparr>],
       tracking_subscriptions = [], notifications = [] \<rparr>"
  by code_simp

subsection \<open>Deduplication\<close>

lemma within_5_minutes_iff:
  "within_5_minutes a b \<longleftrightarrow> (\<exists>x y. a = Some x \<and> b = Some y \<and> \<bar>x - y\<bar> < 300)"
  by (cases a; cases b; simp add: within_5_minutes_def)

lemma checkDuplicate_filter:
  "checkDuplicate st shipmentId eventCode eventDatetime externalEventId =
     (filter (\<lambda>e. te_shipment_id e = shipmentId \<and> event_code e = eventCode
                 \<and> within_5_minutes (event_datetime e) eventDatetime
                 \<and> (truthy_str externalEventId \<longrightarrow> external_event_id e = externalEventId))
        (tracking_events st) \<noteq> [])"
  by (simp add: checkDuplicate_def Let_def)

text \<open>
  C3, as the code has it. \<open>checkDuplicate\<close> holds exactly when a persisted event of the
  same shipment has the same event code and an \<open>event_datetime\<close> less than 300 seconds
  away, and either the candidate carries no external id (whether or not the persisted
  event has one) or the persisted event carries the candidate's external id. So a
  candidate with an external id is not a duplicate of a persisted event that lacks one.
\<close>

theorem checkDuplicate_iff:
  "checkDuplicate st shipmentId eventCode eventDatetime externalEventId \<longleftrightarrow>
     (\<exists>e \<in> set (tracking_events st).
        te_shipment_id e = shipmentId
        \<and> event_code e = eventCode
        \<and> (\<exists>x y. event_datetime e = Some x \<and> eventDatetime = Some y \<and> \<bar>x - y\<bar> < 300)
        \<and> (\<not> truthy_str externalEventId \<or> external_event_id e = externalEventId))"
  unfolding checkDuplicate_filter filter_empty_conv within_5_minutes_iff
  by blast

text \<open>
  At the seed scenario: a second CARGO_COLLECTED 299 seconds later is a duplicate, one
  300 seconds later is not, and one that carries an external id is not a duplicate of
  the persisted event, which has none.
\<close>

theorem checkDuplicate_iff_witness:
  "checkDuplicate state_S1 ''s-1'' ''CARGO_COLLECTED'' (Some 1754388299) None
   \<and> \<not> checkDuplicate state_S1 ''s-1'' ''CARGO_COLLECTED'' (Some 1754388300) None
   \<and> \<not> checkDuplicate state_S1 ''s-1'' ''CARGO_COLLECTED'' (Some 1754388299) (Some ''LE-1'')"
  using checkDuplicate_iff [of state_S1 "''s-1''" "''CARGO_COLLECTED''" "Some 1754388299" None]
        checkDuplicate_iff [of state_S1 "''s-1''" "''CARGO_COLLECTED''" "Some 1754388300" None]
        checkDuplicate_iff [of state_S1 "''s-1''" "''CARGO_COLLECTED''" "Some 1754388299"
                               "Some ''LE-1''"]
  by (simp add: state_S1_eq event_at_def truthy_str_def)

text \<open>
  C3 as it is worded fails: the persisted event carries the external id \<open>LE-1\<close>, the
  candidate carries none, and the code reports a duplicate where the worded rule does
  not.
\<close>

theorem checkDuplicate_counterexample:
  "checkDuplicate state_ext ''s-1'' ''CARGO_COLLECTED'' (Some 1754388299) None
   \<and> \<not> duplicate_spec state_ext ''s-1'' ''CARGO_COLLECTED'' (Some 1754388299) None"
  by code_simp

subsection \<open>Applying an event\<close>

lemma updateShipmentStatus_error:
  "updateShipmentStatus st ev = Inl e \<Longrightarrow> e = StoreError"
  by (auto simp: updateShipmentStatus_def Let_def split: if_splits lookup.splits)

lemma create_error: "create st ev now = (Some e, st1) \<Longrightarrow> e = StoreError"
  by (auto simp: create_def Let_def split: if_splits sum.splits
      dest: updateShipmentStatus_error)

lemma createTrackingEvent_unfold:
  assumes "findById st sid = Some shipment"
    and "\<not> checkDuplicate st sid (event_code d) (event_datetime d) (external_event_id d)"
  obtains te where
    "event_id te = uuid" "te_shipment_id te = sid" "event_code te = event_code d"
    "event_datetime te \<noteq> None"
    "is_milestone te = is_milestone d" "is_exception te = is_exception d"
    "is_critical te = is_critical d"
    "event_category te = or_str (event_category d) ''STATUS_UPDATE''"
    "createTrackingEvent st sid d src uuid now =
       (case create st te now of
          (Some e, st1) \<Rightarrow> (Inl e, st1)
        | (None, st1) \<Rightarrow>
            if flagged te
            then (Inr (snd (sendTrackingNotifications st1 te shipment)),
                  fst (sendTrackingNotifications st1 te shipment))
            else (Inr te, st1))"
proof -
  define te where "te = TrackingEvent_new
                  (d\<lparr> event_id := uuid,
                              te_shipment_id := sid,
                              event_datetime :=
                                (case event_datetime d of
                                   Some t \<Rightarrow> Some t | None \<Rightarrow> Some now),
                              source_id := src,
                              additional_info :=
                                (if truthy_str (additional_info d)
                                 then additional_info d else None),
                              processed := False,
                              notification_sent := False,
                              created_at := None,
                              milestone_name := None,
                              milestone_category := None,
                              source_name := None \<rparr>)"
  have "event_id te = uuid" "te_shipment_id te = sid" "event_code te = event_code d"
    "event_datetime te \<noteq> None"
    "is_milestone te = is_milestone d" "is_exception te = is_exception d"
    "is_critical te = is_critical d"
    "event_category te = or_str (event_category d) ''STATUS_UPDATE''"
    by (simp_all add: te_def TrackingEvent_new_def split: option.splits)
  moreover have "createTrackingEvent st sid d src uuid now =
       (case create st te now of
          (Some e, st1) \<Rightarrow> (Inl e, st1)
        | (None, st1) \<Rightarrow>
            if flagged te
            then (Inr (snd (sendTrackingNotifications st1 te shipment)),
                  fst (sendTrackingNotifications st1 te shipment))
            else (Inr te, st1))"
    using assms
    by (simp add: createTrackingEvent_def Let_def te_def [symmetric] flagged_def
        split: prod.splits option.splits)
  ultimately show thesis by (rule that)
qed

lemma createFromExternal_unfold:
  assumes "\<not> checkDuplicate st sid (event_code d) (event_datetime d) (external_event_id d)"
  obtains ev where
    "event_id ev = uuid" "te_shipment_id ev = sid" "event_code ev = event_code d"
    "createFromExternal st d src sid uuid now =
       (case create st ev now of
          (Some e, st1) \<Rightarrow> (Inl e, st1)
        | (None, st1) \<Rightarrow> (Inr ev, st1))"
proof -
  define ev where "ev = TrackingEvent_new
              (d\<lparr> event_id := uuid,
                             te_shipment_id := sid,
                             source_id := src,
                             additional_info :=
                               (if truthy_str (additional_info d)
                                then additional_info d else None),
                             milestone_id := None,
                             is_critical := False,
                             processed := False,
                             notification_sent := False,
                             created_at := None,
                             created_by := None,
                             milestone_name := None,
                             milestone_category := None,
                             source_name := None \<rparr>)"
  have "event_id ev = uuid" "te_shipment_id ev = sid" "event_code ev = event_code d"
    by (simp_all add: ev_def TrackingEvent_new_def)
  moreover have "createFromExternal st d src sid uuid now =
       (case create st ev now of
          (Some e, st1) \<Rightarrow> (Inl e, st1)
        | (None, st1) \<Rightarrow> (Inr ev, st1))"
    using assms by (simp add: createFromExternal_def Let_def ev_def [symmetric])
  ultimately show thesis by (rule that)
qed

lemma duplicate_iff_checkDuplicate:
  "fst (createTrackingEvent st shipmentId eventData sourceId uuid now) = Inl Duplicate
     \<longleftrightarrow> findById st shipmentId \<noteq> None
         \<and> checkDuplicate st shipmentId (event_code eventData) (event_datetime eventData)
             (external_event_id eventData)"
proof (cases "findById st shipmentId")
  case None
  then show ?thesis by (simp add: createTrackingEvent_def)
next
  case (Some shipment)
  show ?thesis
  proof (cases "checkDuplicate st shipmentId (event_code eventData)
                  (event_datetime eventData) (external_event_id eventData)")
    case True
    with Some show ?thesis by (simp add: createTrackingEvent_def)
  next
    case False
    from createTrackingEvent_unfold [OF Some False, of uuid sourceId now]
    obtain te where "createTrackingEvent st shipmentId eventData sourceId uuid now =
       (case create st te now of
          (Some e, st1) \<Rightarrow> (Inl e, st1)
        | (None, st1) \<Rightarrow>
            if flagged te
            then (Inr (snd (sendTrackingNotifications st1 te shipment)),
                  fst (sendTrackingNotifications st1 te shipment))
            else (Inr te, st1))"
      by blast
    with Some False show ?thesis
      by (auto split: prod.splits option.splits if_splits dest: create_error)
  qed
qed

lemma duplicate_iff_checkDuplicate_external:
  "fst (createFromExternal st eventData sourceId shipmentId uuid now) = Inl Duplicate
     \<longleftrightarrow> checkDuplicate st shipmentId (event_code eventData) (event_datetime eventData)
           (external_event_id eventData)"
proof (cases "checkDuplicate st shipmentId (event_code eventData)
                (event_datetime eventData) (external_event_id eventData)")
  case True
  then show ?thesis by (simp add: createFromExternal_def)
next
  case False
  from createFromExternal_unfold [OF False, of uuid sourceId now]
  obtain ev where "createFromExternal st eventData sourceId shipmentId uuid now =
       (case create st ev now of
          (Some e, st1) \<Rightarrow> (Inl e, st1)
        | (None, st1) \<Rightarrow> (Inr ev, st1))"
    by blast
  with False show ?thesis
    by (auto split: prod.splits option.splits dest: create_error)
qed

lemma duplicate_keeps_store:
  "fst (createTrackingEvent st shipmentId eventData sourceId uuid now) = Inl Duplicate
     \<Longrightarrow> snd (createTrackingEvent st shipmentId eventData sourceId uuid now) = st"
  "fst (createFromExternal st eventData sourceId shipmentId uuid now) = Inl Duplicate
     \<Longrightarrow> snd (createFromExternal st eventData sourceId shipmentId uuid now) = st"
  unfolding duplicate_iff_checkDuplicate duplicate_iff_checkDuplicate_external
  by (auto simp: createTrackingEvent_def createFromExternal_def)

text \<open>
  C2, as the code has it. An apply returns the outcome \<open>Duplicate\<close> exactly when the
  shipment exists (for a manual apply) and a persisted event of the same shipment has
  the same event code, an \<open>event_datetime\<close> less than 300 seconds away, and either the
  candidate carries no external id or the persisted event carries the candidate's.
  An apply that returns \<open>Duplicate\<close> leaves the whole store as it was.
\<close>

theorem duplicate_apply_no_side_effects:
  "(fst (createTrackingEvent st shipmentId eventData sourceId uuid now) = Inl Duplicate
      \<longleftrightarrow> findById st shipmentId \<noteq> None
          \<and> (\<exists>e \<in> set (tracking_events st).
                te_shipment_id e = shipmentId
                \<and> event_code e = event_code eventData
                \<and> (\<exists>x y. event_datetime e = Some x \<and> event_datetime eventData = Some y
                          \<and> \<bar>x - y\<bar> < 300)
                \<and> (\<not> truthy_str (external_event_id eventData)
                    \<or> external_event_id e = external_event_id eventData)))
   \<and> (fst (createFromExternal st eventData sourceId shipmentId uuid now) = Inl Duplicate
      \<longleftrightarrow> (\<exists>e \<in> set (tracking_events st).
                te_shipment_id e = shipmentId
                \<and> event_code e = event_code eventData
                \<and> (\<exists>x y. event_datetime e = Some x \<and> event_datetime eventData = Some y
                          \<and> \<bar>x - y\<bar> < 300)
                \<and> (\<not> truthy_str (external_event_id eventData)
                    \<or> external_event_id e = external_event_id eventData)))
   \<and> (fst (createTrackingEvent st shipmentId eventData sourceId uuid now) = Inl Duplicate
      \<longrightarrow> snd (createTrackingEvent st shipmentId eventData sourceId uuid now) = st)
   \<and> (fst (createFromExternal st eventData sourceId shipmentId uuid now) = Inl Duplicate
      \<longrightarrow> snd (createFromExternal st eventData sourceId shipmentId uuid now) = st)"
  unfolding duplicate_iff_checkDuplicate duplicate_iff_checkDuplicate_external
    checkDuplicate_filter filter_empty_conv within_5_minutes_iff
  using duplicate_keeps_store(1) [of st shipmentId eventData sourceId uuid now]
        duplicate_keeps_store(2) [of st eventData sourceId shipmentId uuid now]
  unfolding duplicate_iff_checkDuplicate duplicate_iff_checkDuplicate_external
    checkDuplicate_filter filter_empty_conv within_5_minutes_iff
  by blast

text \<open>
  C2 as it is worded fails twice after S1. A CARGO_COLLECTED exactly 300 seconds later
  is within 300 seconds; one 299 seconds later that carries the external id \<open>LE-1\<close>
  conflicts with no external id, since the persisted event has none. Neither is taken
  for a duplicate: each is stored as a second event and moves \<open>last_tracked_at\<close>.
\<close>

theorem duplicate_apply_counterexample:
  "length (tracking_events state_S1) = 1
   \<and> map last_tracked_at (shipments state_S1) = [Some 1754388000]
   \<and> length (tracking_events (snd (createTrackingEvent state_S1 ''s-1''
               (event_at ''CARGO_COLLECTED'' 1754388300 ''SIN'')
               (Some ''src-manual'') ''e-2'' 1754388300))) = 2
   \<and> map last_tracked_at (shipments (snd (createTrackingEvent state_S1 ''s-1''
               (event_at ''CARGO_COLLECTED'' 1754388300 ''SIN'')
               (Some ''src-manual'') ''e-2'' 1754388300))) = [Some 1754388300]
   \<and> length (tracking_events (snd (createFromExternal state_S1
               ((event_at ''CARGO_COLLECTED'' 1754388299 ''SIN'')
                  \<lparr> external_event_id := Some ''LE-1'' \<rparr>)
               (Some ''src-iata'') ''s-1'' ''e-2'' 1754388400))) = 2
   \<and> map last_tracked_at (shipments (snd (createFromExternal state_S1
               ((event_at ''CARGO_COLLECTED'' 1754388299 ''SIN'')
                  \<lparr> external_event_id := Some ''LE-1'' \<rparr>)
               (Some ''src-iata'') ''s-1'' ''e-2'' 1754388400))) = [Some 1754388299]"
  by code_simp

text \<open>
  Scenario S2: after CARGO_COLLECTED at 10:00:00, the same code at 10:04:59 with no
  external id is a duplicate; the store is as it was and still holds one event.
\<close>

theorem duplicate_apply_no_side_effects_witness:
  "fst (createTrackingEvent state_S1 ''s-1'' (event_at ''CARGO_COLLECTED'' 1754388299 ''SIN'')
          (Some ''src-manual'') ''e-2'' 1754388299) = Inl Duplicate
   \<and> snd (createTrackingEvent state_S1 ''s-1'' (event_at ''CARGO_COLLECTED'' 1754388299 ''SIN'')
          (Some ''src-manual'') ''e-2'' 1754388299) = state_S1
   \<and> length (tracking_events state_S1) = 1"
  using duplicate_apply_no_side_effects
    [of state_S1 "''s-1''" "event_at ''CARGO_COLLECTED'' 1754388299 ''SIN''"
        "Some ''src-manual''" "''e-2''" 1754388299]
  by (simp add: state_S1_eq findById_def scenario_defs truthy_str_def)

subsection \<open>The shipment row after an apply\<close>

text \<open>
  \<open>updateShipmentStatus\<close> is \<open>ship_update\<close> on every row, unless the code names a
  property that \<open>statusMapping\<close> inherits; an apply either leaves the store as it was
  or has \<open>applied\<close> one row.
\<close>

lemma statusMapping_at_Own:
  "statusMapping code = Some s \<Longrightarrow> statusMapping_at code = Own s"
  by (simp add: statusMapping_at_def)

lemma statusMapping_at_Inherited:
  "statusMapping_at code = Inherited \<Longrightarrow> statusMapping code = None"
  by (simp add: statusMapping_at_def split: option.splits)

lemma statusMapping_DELIVERED: "statusMapping ''DELIVERED'' = Some ''DELIVERED''"
  by (simp add: statusMapping_def)

lemma updateShipmentStatus_eq:
  "updateShipmentStatus st ev =
     (if status_bearing ev \<and> statusMapping_at (event_code ev) = Inherited
      then Inl StoreError
      else Inr (st\<lparr> shipments := map (ship_update ev) (shipments st) \<rparr>))"
proof (cases "status_bearing ev")
  case False
  then have "map (ship_update ev) (shipments st) = shipments st"
    by (intro map_idI) (simp add: ship_update_def)
  with False show ?thesis
    by (simp add: updateShipmentStatus_def status_bearing_def)
next
  case True
  show ?thesis
  proof (cases "statusMapping_at (event_code ev)")
    case (Own s)
    then have "statusMapping (event_code ev) = Some s"
      by (simp add: statusMapping_at_def split: option.splits if_splits)
    with True Own show ?thesis
      by (auto simp: updateShipmentStatus_def ship_update_def status_bearing_def Let_def)
  next
    case Inherited
    with True show ?thesis
      by (simp add: updateShipmentStatus_def status_bearing_def)
  next
    case Undefined
    then have "statusMapping (event_code ev) = None"
      by (simp add: statusMapping_at_def split: option.splits if_splits)
    with True Undefined show ?thesis
      by (auto simp: updateShipmentStatus_def ship_update_def status_bearing_def Let_def
          this_current_status_def)
  qed
qed

lemma ship_update_created_at [simp]:
  "ship_update (ev\<lparr> created_at := t \<rparr>) = ship_update ev"
  by (rule ext) (auto simp: ship_update_def status_bearing_def)

lemma ship_update_id [simp]: "shipment_id (ship_update row s) = shipment_id s"
  by (simp add: ship_update_def)

lemma ship_update_Inherited:
  "statusMapping_at (event_code ev) = Inherited \<Longrightarrow> ship_update ev s = s"
  by (simp add: ship_update_def)

lemma create_applied:
  assumes "create st ev now = (r, st1)"
  shows "(r \<noteq> None \<and> st1 = st) \<or> applied st (ev\<lparr> created_at := Some now \<rparr>) st1"
proof (cases "insert_ok st ev")
  case False
  with assms show ?thesis by (auto simp: create_def)
next
  case True
  show ?thesis
  proof (cases "status_bearing ev \<and> statusMapping_at (event_code ev) = Inherited")
    case True
    then have "map (ship_update ev) (shipments st) = shipments st"
      by (intro map_idI) (simp add: ship_update_Inherited)
    with True \<open>insert_ok st ev\<close> assms show ?thesis
      by (auto simp: create_def applied_def updateShipmentStatus_eq Let_def)
  next
    case False
    with \<open>insert_ok st ev\<close> assms show ?thesis
      by (auto simp: create_def applied_def updateShipmentStatus_eq Let_def)
  qed
qed

lemma create_keeps:
  "create st ev now = (r, st1) \<Longrightarrow>
     notifications st1 = notifications st
     \<and> tracking_subscriptions st1 = tracking_subscriptions st"
  by (auto simp: create_def updateShipmentStatus_eq Let_def split: if_splits)

lemma unmark_mark:
  "map (unmark \<circ> (\<lambda>e. if P e then e\<lparr> notification_sent := True \<rparr> else e)) xs = map unmark xs"
  by (induction xs) (simp_all add: unmark_def)

lemma sendTrackingNotifications_applied:
  "applied st row st1 \<Longrightarrow> applied st row (fst (sendTrackingNotifications st1 ev shipment))"
  by (simp add: applied_def sendTrackingNotifications_def markNotificationSent_def Let_def
      unmark_mark)

lemma createTrackingEvent_step:
  "snd (createTrackingEvent st sid d src uuid now) = st
   \<or> (\<exists>row. te_shipment_id row = sid \<and> event_code row = event_code d
            \<and> applied st row (snd (createTrackingEvent st sid d src uuid now)))"
proof (cases "findById st sid")
  case None
  then show ?thesis by (simp add: createTrackingEvent_def)
next
  case (Some shipment)
  show ?thesis
  proof (cases "checkDuplicate st sid (event_code d) (event_datetime d) (external_event_id d)")
    case True
    with Some show ?thesis by (simp add: createTrackingEvent_def)
  next
    case False
    from createTrackingEvent_unfold [OF Some False, of uuid src now]
    obtain te where te: "te_shipment_id te = sid" "event_code te = event_code d"
      and r: "createTrackingEvent st sid d src uuid now =
       (case create st te now of
          (Some e, st1) \<Rightarrow> (Inl e, st1)
        | (None, st1) \<Rightarrow>
            if flagged te
            then (Inr (snd (sendTrackingNotifications st1 te shipment)),
                  fst (sendTrackingNotifications st1 te shipment))
            else (Inr te, st1))"
      by blast
    obtain e st1 where c: "create st te now = (e, st1)" by (cases "create st te now")
    from create_applied [OF c] show ?thesis
    proof
      assume "e \<noteq> None \<and> st1 = st"
      with c r show ?thesis by (auto split: option.splits)
    next
      assume a: "applied st (te\<lparr> created_at := Some now \<rparr>) st1"
      then have "applied st (te\<lparr> created_at := Some now \<rparr>)
                   (snd (createTrackingEvent st sid d src uuid now))"
        using c r sendTrackingNotifications_applied [OF a]
        by (auto split: option.splits)
      with te show ?thesis
        by (intro disjI2 exI [of _ "te\<lparr> created_at := Some now \<rparr>"]) simp
    qed
  qed
qed

lemma createFromExternal_step:
  "snd (createFromExternal st d src sid uuid now) = st
   \<or> (\<exists>row. te_shipment_id row = sid \<and> event_code row = event_code d
            \<and> applied st row (snd (createFromExternal st d src sid uuid now)))"
proof (cases "checkDuplicate st sid (event_code d) (event_datetime d) (external_event_id d)")
  case True
  then show ?thesis by (simp add: createFromExternal_def)
next
  case False
  from createFromExternal_unfold [OF False, of uuid src now]
  obtain ev where ev: "te_shipment_id ev = sid" "event_code ev = event_code d"
    and r: "createFromExternal st d src sid uuid now =
       (case create st ev now of
          (Some e, st1) \<Rightarrow> (Inl e, st1)
        | (None, st1) \<Rightarrow> (Inr ev, st1))"
    by blast
  obtain e st1 where c: "create st ev now = (e, st1)" by (cases "create st ev now")
  then have s: "snd (createFromExternal st d src sid uuid now) = st1"
    using r by (simp split: option.splits)
  from create_applied [OF c] show ?thesis
  proof
    assume "e \<noteq> None \<and> st1 = st"
    with s show ?thesis by simp
  next
    assume "applied st (ev\<lparr> created_at := Some now \<rparr>) st1"
    with ev s show ?thesis
      by (intro disjI2 exI [of _ "ev\<lparr> created_at := Some now \<rparr>"]) simp
  qed
qed

lemma apply_to_step:
  "apply_to st a = st \<or> (\<exists>row. applied st row (apply_to st a))"
proof (cases a)
  case (Manual sid d src uuid now)
  with createTrackingEvent_step [of st sid d src uuid now] show ?thesis by auto
next
  case (External d src sid uuid now)
  with createFromExternal_step [of st d src sid uuid now] show ?thesis by auto
qed

lemma map_filter_unmark:
  assumes "\<And>e. P (unmark e) = P e" and "\<And>e. f (unmark e) = f e"
  shows "map f (filter P (map unmark xs)) = map f (filter P xs)"
  by (induction xs) (simp_all add: assms)

lemma applied_log:
  assumes "applied st row st'"
    and P: "\<And>e. P (unmark e) = P e" and f: "\<And>e. f (unmark e) = f e"
  shows "map f (filter P (tracking_events st'))
         = map f (filter P (tracking_events st)) @ (if P row then [f row] else [])"
proof -
  have "map f (filter P (tracking_events st'))
        = map f (filter P (map unmark (tracking_events st')))"
    by (simp add: map_filter_unmark [of P f, OF P f])
  also have "\<dots> = map f (filter P (map unmark (tracking_events st) @ [unmark row]))"
    using assms(1) by (simp add: applied_def)
  also have "\<dots> = map f (filter P (map unmark (tracking_events st)))
                   @ (if P row then [f row] else [])"
    by (simp add: P f)
  finally show ?thesis
    by (simp add: map_filter_unmark [of P f, OF P f])
qed


lemma delivered_times_step:
  assumes "applied st row st'"
  shows "delivered_times st' i
         = delivered_times st i
           @ (if te_shipment_id row = i \<and> status_bearing row \<and> event_code row = ''DELIVERED''
              then [event_datetime row] else [])"
  unfolding delivered_times_def
  by (rule applied_log [OF assms]) (simp_all add: unmark_def status_bearing_def)

lemma applied_rows:
  assumes "applied st row st'"
  shows "rows_of st' i = map (ship_update row) (rows_of st i)"
  using assms by (simp add: applied_def rows_of_def filter_map o_def)




lemma applied_sets_delivery:
  assumes a: "applied st row st'"
    and c: "delivered_times st' i = delivered_times st i @ [t]"
    and sh: "sh \<in> set (rows_of st' i)"
  shows "delivery_date sh = t"
proof -
  from c delivered_times_step [OF a, of i]
  have row: "te_shipment_id row = i" "status_bearing row" "event_code row = ''DELIVERED''"
    "event_datetime row = t"
    by (auto split: if_splits)
  from sh applied_rows [OF a, of i] obtain sh0 where
    sh0: "sh0 \<in> set (rows_of st i)" "sh = ship_update row sh0"
    by auto
  then have "shipment_id sh0 = i" by (simp add: rows_of_def)
  with row sh0(2) show ?thesis
    by (simp add: ship_update_def statusMapping_at_Own [OF statusMapping_DELIVERED])
qed

lemma applied_keeps_delivery:
  assumes a: "applied st row st'"
    and c: "delivered_times st' i = delivered_times st i"
  shows "map delivery_date (rows_of st' i) = map delivery_date (rows_of st i)"
proof -
  from c delivered_times_step [OF a, of i]
  have "\<not> (te_shipment_id row = i \<and> status_bearing row \<and> event_code row = ''DELIVERED'')"
    by (auto split: if_splits)
  then have "delivery_date (ship_update row s) = delivery_date s"
    if "s \<in> set (rows_of st i)" for s
    using that by (auto simp: ship_update_def rows_of_def)
  then show ?thesis by (simp add: applied_rows [OF a])
qed

lemma applied_delivery_inv:
  assumes a: "applied st row st'" and inv: "delivery_follows_applies st i"
  shows "delivery_follows_applies st' i"
proof (cases "te_shipment_id row = i \<and> status_bearing row \<and> event_code row = ''DELIVERED''")
  case True
  then have c: "delivered_times st' i = delivered_times st i @ [event_datetime row]"
    by (simp add: delivered_times_step [OF a])
  show ?thesis
    unfolding delivery_follows_applies_def c
    using applied_sets_delivery [OF a c] by simp
next
  case False
  then have c: "delivered_times st' i = delivered_times st i"
    by (simp add: delivered_times_step [OF a])
  have "delivery_date sh = (case rev (delivered_times st i) of [] \<Rightarrow> None | t # _ \<Rightarrow> t)"
    if "sh \<in> set (rows_of st' i)" for sh
  proof -
    from that have "delivery_date sh \<in> set (map delivery_date (rows_of st' i))" by simp
    then have "delivery_date sh \<in> set (map delivery_date (rows_of st i))"
      by (simp only: applied_keeps_delivery [OF a c])
    then show ?thesis using inv by (auto simp: delivery_follows_applies_def)
  qed
  then show ?thesis by (simp add: delivery_follows_applies_def c)
qed


lemma delivery_inv_foldl:
  "delivery_follows_applies st i \<Longrightarrow> delivery_follows_applies (foldl apply_to st as) i"
proof (induction as arbitrary: st)
  case Nil
  then show ?case by simp
next
  case (Cons a as)
  from apply_to_step [of st a] Cons.prems have "delivery_follows_applies (apply_to st a) i"
    by (auto intro: applied_delivery_inv)
  then show ?case using Cons.IH by simp
qed

subsection \<open>Current status\<close>




subsection \<open>Delivery date\<close>

text \<open>
  C9, as the code has it, for one shipment \<open>i\<close>. An apply that stores a status-bearing
  event of the shipment with the code DELIVERED sets \<open>delivery_date\<close> to that event's
  \<open>event_datetime\<close>. An apply that stores no such event leaves the shipment's
  \<open>delivery_date\<close> as it was, whatever the code and the times of the event it stores.
  So when the shipment's \<open>delivery_date\<close> is the time of the last DELIVERED event
  applied to it, and unset when there is none, this stays so over every sequence of
  applies.
\<close>

theorem delivery_date_follows_delivered:
  "(delivered_times (apply_to st a) i = delivered_times st i @ [t]
      \<longrightarrow> (\<forall>sh \<in> set (rows_of (apply_to st a) i). delivery_date sh = t))
   \<and> (delivered_times (apply_to st a) i = delivered_times st i
      \<longrightarrow> map delivery_date (rows_of (apply_to st a) i) = map delivery_date (rows_of st i))
   \<and> (delivery_follows_applies st i \<longrightarrow> delivery_follows_applies (foldl apply_to st as) i)"
  using apply_to_step [of st a]
  by (auto dest: applied_sets_delivery applied_keeps_delivery intro: delivery_inv_foldl)

text \<open>
  C9 as it is worded fails: after DELIVERED, an OUT_FOR_DELIVERY scan with a later
  \<open>event_datetime\<close> is applied. The event with the greatest
  \<open>(event_datetime, created_at)\<close> is then not DELIVERED, and \<open>delivery_date\<close> is still
  set.
\<close>

theorem delivery_date_counterexample:
  "map delivery_date (shipments state_late_scan) = [Some 1754568000]
   \<and> derived_status_spec state_late_scan ''s-1'' = Some ''OUT_FOR_DELIVERY''"
  by code_simp

text \<open>
  The delivery after S1, the late scan on the delivered shipment, and the three applies
  to \<open>s-2\<close>, the second of which is its delivery.
\<close>

theorem delivery_date_follows_delivered_witness:
  "delivered_times (apply_to state_S1 delivery) ''s-1''
     = delivered_times state_S1 ''s-1'' @ [Some 1754568000]
   \<and> map delivery_date (rows_of (apply_to state_S1 delivery) ''s-1'') = [Some 1754568000]
   \<and> delivered_times (apply_to state_delivered late_scan) ''s-1''
     = delivered_times state_delivered ''s-1''
   \<and> map delivery_date (rows_of (apply_to state_delivered late_scan) ''s-1'')
       = [Some 1754568000]
   \<and> delivery_follows_applies state_two ''s-2''
   \<and> delivery_follows_applies (foldl apply_to state_two applies_s2) ''s-2''
   \<and> map delivery_date (rows_of (foldl apply_to state_two applies_s2) ''s-2'')
       = [Some 1754568000]"
proof -
  have a: "delivered_times (apply_to state_S1 delivery) ''s-1''
     = delivered_times state_S1 ''s-1'' @ [Some 1754568000]"
    by code_simp
  have r: "length (rows_of (apply_to state_S1 delivery) ''s-1'') = 1"
    by code_simp
  have b: "delivered_times (apply_to state_delivered late_scan) ''s-1''
     = delivered_times state_delivered ''s-1''"
    "map delivery_date (rows_of state_delivered ''s-1'') = [Some 1754568000]"
    by code_simp+
  have c: "delivery_follows_applies state_two ''s-2''"
    "map delivery_date (rows_of (foldl apply_to state_two applies_s2) ''s-2'')
       = [Some 1754568000]"
    by code_simp+
  from delivery_date_follows_delivered [of state_S1 delivery "''s-1''" "Some 1754568000"]
       delivery_date_follows_delivered [of state_delivered late_scan "''s-1''"]
       delivery_date_follows_delivered [of state_two _ "''s-2''" _ applies_s2]
       a b c
  have "\<forall>sh \<in> set (rows_of (apply_to state_S1 delivery) ''s-1'').
          delivery_date sh = Some 1754568000"
    and "map delivery_date (rows_of (apply_to state_delivered late_scan) ''s-1'')
       = [Some 1754568000]"
    and "delivery_follows_applies (foldl apply_to state_two applies_s2) ''s-2''"
    by simp_all
  moreover from this(1) r
  have "map delivery_date (rows_of (apply_to state_S1 delivery) ''s-1'') = [Some 1754568000]"
    by (cases "rows_of (apply_to state_S1 delivery) ''s-1''") auto
  ultimately show ?thesis using a b c by simp
qed

subsection \<open>Notifications\<close>

lemma findById_id: "findById st sid = Some shipment \<Longrightarrow> shipment_id shipment = sid"
  by (auto simp: findById_def Shipment_new_def dest: find_Some_iff [THEN iffD1])

lemma sendTrackingNotifications_log:
  "notifications (fst (sendTrackingNotifications st1 te shipment))
   = notifications st1
     @ map (\<lambda>sub. (sub, event_id te))
         (filter (\<lambda>sub. sub_shipment_id sub = shipment_id shipment \<and> is_active sub
                       \<and> ((milestone_notifications sub \<and> is_milestone te)
                          \<or> (exception_notifications sub \<and> is_exception te)
                          \<or> all_events sub))
            (tracking_subscriptions st1))"
  by (simp add: sendTrackingNotifications_def markNotificationSent_def Let_def)

lemma sendTrackingNotifications_event:
  "snd (sendTrackingNotifications st1 te shipment) = te\<lparr> notification_sent := True \<rparr>"
  by (simp add: sendTrackingNotifications_def markNotificationSent_def Let_def)

lemma createTrackingEvent_created:
  assumes "createTrackingEvent st sid d src uuid now = (Inr ev, st')"
  shows "\<exists>shipment te st1.
           findById st sid = Some shipment
           \<and> create st te now = (None, st1)
           \<and> event_id te = uuid
           \<and> (if flagged te
               then (ev, st') = (snd (sendTrackingNotifications st1 te shipment),
                                 fst (sendTrackingNotifications st1 te shipment))
               else (ev, st') = (te, st1))"
proof (cases "findById st sid")
  case None
  with assms show ?thesis by (simp add: createTrackingEvent_def)
next
  case (Some shipment)
  from assms Some have nodup:
    "\<not> checkDuplicate st sid (event_code d) (event_datetime d) (external_event_id d)"
    by (auto simp: createTrackingEvent_def)
  from createTrackingEvent_unfold [OF Some nodup, of uuid src now]
  obtain te where te: "event_id te = uuid"
    and r: "createTrackingEvent st sid d src uuid now =
       (case create st te now of
          (Some e, st1) \<Rightarrow> (Inl e, st1)
        | (None, st1) \<Rightarrow>
            if flagged te
            then (Inr (snd (sendTrackingNotifications st1 te shipment)),
                  fst (sendTrackingNotifications st1 te shipment))
            else (Inr te, st1))"
    by blast
  obtain e st1 where c: "create st te now = (e, st1)" by (cases "create st te now")
  with assms r have "e = None" by (cases e) auto
  with assms r c have
    "if flagged te
     then (ev, st') = (snd (sendTrackingNotifications st1 te shipment),
                       fst (sendTrackingNotifications st1 te shipment))
     else (ev, st') = (te, st1)"
    by (auto split: if_splits)
  with Some c te \<open>e = None\<close> show ?thesis by blast
qed

text \<open>
  C6, as the code has it. Let a manual apply succeed and create the event \<open>ev\<close>, and
  let \<open>B\<close> be a subscription. Unless \<open>B\<close> has \<open>location_updates\<close> set, \<open>ev\<close> is a
  flagged event of category LOCATION_UPDATE, and no other rule matches the pair, the
  apply dispatches a notification of \<open>ev\<close> to \<open>B\<close> exactly when \<open>B\<close> is a subscription
  of the store, on the shipment, active, \<open>ev\<close> is a milestone, an exception or
  critical, and the pair matches by the rules of the specification.
\<close>

theorem notification_dispatch:
  assumes "createTrackingEvent st shipmentId eventData sourceId uuid now = (Inr ev, st')"
    and "location_updates B \<and> event_category ev = Some ''LOCATION_UPDATE'' \<and> flagged ev
         \<longrightarrow> all_events B
             \<or> (milestone_notifications B \<and> is_milestone ev)
             \<or> (exception_notifications B \<and> is_exception ev)"
  shows "(B, event_id ev) \<in> set (drop (length (notifications st)) (notifications st'))
         \<longleftrightarrow>
         B \<in> set (tracking_subscriptions st) \<and> sub_shipment_id B = shipmentId \<and> is_active B
         \<and> flagged ev \<and> matches_spec B ev"
proof -
  from createTrackingEvent_created [OF assms(1)]
  obtain shipment te st1 where
    sh: "findById st shipmentId = Some shipment" and
    cr: "create st te now = (None, st1)" and
    r: "if flagged te
        then (ev, st') = (snd (sendTrackingNotifications st1 te shipment),
                          fst (sendTrackingNotifications st1 te shipment))
        else (ev, st') = (te, st1)"
    by blast
  note k = create_keeps [OF cr]
  show ?thesis
  proof (cases "flagged te")
    case False
    with r k show ?thesis by simp
  next
    case True
    with r have ev: "ev = te\<lparr> notification_sent := True \<rparr>"
      and st': "st' = fst (sendTrackingNotifications st1 te shipment)"
      by (simp_all add: sendTrackingNotifications_event)
    have fl: "flagged ev" using True by (simp add: ev flagged_def)
    show ?thesis
      unfolding st' sendTrackingNotifications_log
      using fl assms(2) by (auto simp: k ev findById_id [OF sh] matches_spec_def)
  qed
qed

text \<open>
  C6 as it is worded fails for a plain LOCATION_UPDATE event: the event is stored, the
  active subscription with \<open>location_updates\<close> set matches it, and nothing is
  dispatched.
\<close>

theorem notification_dispatch_counterexample:
  "sub_location \<in> set (tracking_subscriptions state_subs)
   \<and> is_active sub_location
   \<and> sub_shipment_id sub_location = ''s-1''
   \<and> length (tracking_events (snd (createTrackingEvent state_subs ''s-1'' location_update
                                     (Some ''src-manual'') ''e-2'' 1754395200))) = 2
   \<and> matches_spec sub_location
        (last (tracking_events (snd (createTrackingEvent state_subs ''s-1'' location_update
                                       (Some ''src-manual'') ''e-2'' 1754395200))))
   \<and> notifications (snd (createTrackingEvent state_subs ''s-1'' location_update
                            (Some ''src-manual'') ''e-2'' 1754395200)) = []"
  by code_simp

text \<open>
  FLIGHT_ARRIVED, a milestone, is dispatched to the subscription for milestones and
  not to the one for location updates only; a milestone of category LOCATION_UPDATE is
  dispatched to the subscription for milestones and location updates.
\<close>

theorem notification_dispatch_witness:
  "(sub_milestone, ''e-2'')
     \<in> set (drop (length (notifications state_subs))
              (notifications (snd (createTrackingEvent state_subs ''s-1'' flight_arrived
                                     (Some ''src-manual'') ''e-2'' 1754467200))))
   \<and> (sub_location, ''e-2'')
     \<notin> set (drop (length (notifications state_subs))
              (notifications (snd (createTrackingEvent state_subs ''s-1'' flight_arrived
                                     (Some ''src-manual'') ''e-2'' 1754467200))))
   \<and> (sub_both, ''e-2'')
     \<in> set (drop (length (notifications state_subs))
              (notifications (snd (createTrackingEvent state_subs ''s-1'' arrival_position
                                     (Some ''src-manual'') ''e-2'' 1754467200))))"
proof -
  define r where "r = createTrackingEvent state_subs ''s-1'' flight_arrived
                        (Some ''src-manual'') ''e-2'' 1754467200"
  define q where "q = createTrackingEvent state_subs ''s-1'' arrival_position
                        (Some ''src-manual'') ''e-2'' 1754467200"
  have h: "createTrackingEvent state_subs ''s-1'' flight_arrived
             (Some ''src-manual'') ''e-2'' 1754467200 = (Inr (projr (fst r)), snd r)"
    "createTrackingEvent state_subs ''s-1'' arrival_position
             (Some ''src-manual'') ''e-2'' 1754467200 = (Inr (projr (fst q)), snd q)"
    unfolding r_def q_def by code_simp+
  have e: "event_id (projr (fst r)) = ''e-2''" "flagged (projr (fst r))"
    "is_milestone (projr (fst r))"
    "event_category (projr (fst r)) = Some ''STATUS_UPDATE''"
    "matches_spec sub_milestone (projr (fst r))"
    "\<not> matches_spec sub_location (projr (fst r))"
    unfolding r_def by code_simp+
  have f: "event_id (projr (fst q)) = ''e-2''" "flagged (projr (fst q))"
    "is_milestone (projr (fst q))"
    "event_category (projr (fst q)) = Some ''LOCATION_UPDATE''"
    "matches_spec sub_both (projr (fst q))"
    unfolding q_def by code_simp+
  have s: "tracking_subscriptions state_subs = [sub_milestone, sub_location, sub_all, sub_both]"
    by (simp add: state_subs_def)
  have t: "sub_shipment_id sub_milestone = ''s-1''" "is_active sub_milestone"
    "sub_shipment_id sub_both = ''s-1''" "is_active sub_both"
    "milestone_notifications sub_both" "location_updates sub_both"
    "\<not> location_updates sub_milestone"
    by (simp_all add: sub_milestone_def sub_both_def subscription_of_def)
  from notification_dispatch [OF h(1), of sub_milestone]
       notification_dispatch [OF h(1), of sub_location]
       notification_dispatch [OF h(2), of sub_both]
  show ?thesis
    unfolding r_def [symmetric] q_def [symmetric]
    by (simp add: e f s t)
qed

text \<open>
  Where no event is created nothing is dispatched: a failed manual apply sends
  nothing, also when the row was stored and the shipment update failed after it, as
  for the code \<open>toString\<close>; and an apply from a source adapter never sends.
\<close>

lemma createTrackingEvent_failed_sends_nothing:
  assumes "fst (createTrackingEvent st sid d src uuid now) = Inl e"
  shows "notifications (snd (createTrackingEvent st sid d src uuid now)) = notifications st"
proof (cases "findById st sid")
  case None
  then show ?thesis by (simp add: createTrackingEvent_def)
next
  case (Some shipment)
  show ?thesis
  proof (cases "checkDuplicate st sid (event_code d) (event_datetime d) (external_event_id d)")
    case True
    with Some show ?thesis by (simp add: createTrackingEvent_def)
  next
    case False
    from createTrackingEvent_unfold [OF Some False, of uuid src now]
    obtain te where
      r: "createTrackingEvent st sid d src uuid now =
       (case create st te now of
          (Some e, st1) \<Rightarrow> (Inl e, st1)
        | (None, st1) \<Rightarrow>
            if flagged te
            then (Inr (snd (sendTrackingNotifications st1 te shipment)),
                  fst (sendTrackingNotifications st1 te shipment))
            else (Inr te, st1))"
      by blast
    obtain x st1 where c: "create st te now = (x, st1)" by (cases "create st te now")
    with assms r create_keeps [OF c] show ?thesis
      by (cases x) (auto split: if_splits)
  qed
qed

lemma createFromExternal_sends_nothing:
  "notifications (snd (createFromExternal st d src sid uuid now)) = notifications st"
proof (cases "checkDuplicate st sid (event_code d) (event_datetime d) (external_event_id d)")
  case True
  then show ?thesis by (simp add: createFromExternal_def)
next
  case False
  from createFromExternal_unfold [OF False, of uuid src now]
  obtain ev where r: "createFromExternal st d src sid uuid now =
       (case create st ev now of
          (Some e, st1) \<Rightarrow> (Inl e, st1)
        | (None, st1) \<Rightarrow> (Inr ev, st1))"
    by blast
  obtain x st1 where c: "create st ev now = (x, st1)" by (cases "create st ev now")
  with r create_keeps [OF c] show ?thesis by (cases x) auto
qed

lemma inherited_code_stored_not_dispatched:
  "fst (createTrackingEvent state_subs ''s-1'' (event_at ''toString'' 1754467200 ''HKG'')
          (Some ''src-manual'') ''e-2'' 1754467200) = Inl StoreError
   \<and> length (tracking_events
               (snd (createTrackingEvent state_subs ''s-1''
                       (event_at ''toString'' 1754467200 ''HKG'')
                       (Some ''src-manual'') ''e-2'' 1754467200))) = 2
   \<and> notifications
        (snd (createTrackingEvent state_subs ''s-1'' (event_at ''toString'' 1754467200 ''HKG'')
                (Some ''src-manual'') ''e-2'' 1754467200)) = []"
  by code_simp

subsection \<open>The poll scheduler\<close>

lemma update_due_iff:
  "update_due now s \<longleftrightarrow>
     tracking_enabled s
     \<and> (\<exists>c. current_status s = Some c \<and> c \<noteq> ''DELIVERED'' \<and> c \<noteq> ''CANCELLED'')
     \<and> (last_tracked_at s = None
        \<or> (\<exists>t. last_tracked_at s = Some t \<and> 60 * tracking_frequency_minutes s < now - t))"
  by (auto simp: update_due_def split: option.splits)

lemma sorted_take_drop:
  assumes "sorted (map k xs)"
  shows "\<forall>s \<in> set (take n xs). \<forall>u \<in> set (drop n xs). k s \<le> k u"
proof -
  from assms have "sorted (map k (take n xs) @ map k (drop n xs))"
    by (simp add: map_append [symmetric] del: map_append)
  then show ?thesis by (auto simp: sorted_append)
qed

text \<open>
  C8, as the code has it. The shipments due at a tick are those with tracking enabled,
  a status that is set and is neither DELIVERED nor CANCELLED, and a \<open>last_tracked_at\<close>
  that is null or lies more than \<open>tracking_frequency_minutes\<close> in the past. A tick
  selects only due shipments; it selects 100 of them, or all of them when fewer than
  100 are due; the selected ones are in the order of \<open>last_tracked_at\<close>, nulls first,
  and every due shipment left out was tracked no earlier than every selected one; and
  when at most 100 shipments are due it selects exactly those.
\<close>

theorem due_selection:
  "set (filter (update_due now) (shipments st))
     = {s \<in> set (shipments st).
          tracking_enabled s
          \<and> (\<exists>c. current_status s = Some c \<and> c \<noteq> ''DELIVERED'' \<and> c \<noteq> ''CANCELLED'')
          \<and> (last_tracked_at s = None
             \<or> (\<exists>t. last_tracked_at s = Some t
                     \<and> 60 * tracking_frequency_minutes s < now - t))}
   \<and> set (getShipmentsForUpdate st now)
     \<subseteq> {s \<in> set (shipments st).
          tracking_enabled s
          \<and> (\<exists>c. current_status s = Some c \<and> c \<noteq> ''DELIVERED'' \<and> c \<noteq> ''CANCELLED'')
          \<and> (last_tracked_at s = None
             \<or> (\<exists>t. last_tracked_at s = Some t
                     \<and> 60 * tracking_frequency_minutes s < now - t))}
   \<and> length (getShipmentsForUpdate st now)
     = min 100 (length (filter (update_due now) (shipments st)))
   \<and> sorted (map last_tracked_at (getShipmentsForUpdate st now))
   \<and> (\<exists>rest. mset (getShipmentsForUpdate st now @ rest)
                = mset (filter (update_due now) (shipments st))
             \<and> (\<forall>s \<in> set (getShipmentsForUpdate st now). \<forall>u \<in> set rest.
                   last_tracked_at s \<le> last_tracked_at u))
   \<and> (length (filter (update_due now) (shipments st)) \<le> 100 \<longrightarrow>
        set (getShipmentsForUpdate st now)
          = {s \<in> set (shipments st).
               tracking_enabled s
               \<and> (\<exists>c. current_status s = Some c \<and> c \<noteq> ''DELIVERED'' \<and> c \<noteq> ''CANCELLED'')
               \<and> (last_tracked_at s = None
                  \<or> (\<exists>t. last_tracked_at s = Some t
                          \<and> 60 * tracking_frequency_minutes s < now - t))})"
proof -
  let ?due = "filter (update_due now) (shipments st)"
  let ?sorted = "sort_key last_tracked_at ?due"
  have a: "set (getShipmentsForUpdate st now) \<subseteq> set ?due"
    unfolding getShipmentsForUpdate_def using set_take_subset [of 100 ?sorted]
    by simp
  have b: "length (getShipmentsForUpdate st now) = min 100 (length ?due)"
    by (simp add: getShipmentsForUpdate_def min.commute)
  have s: "sorted (map last_tracked_at ?sorted)"
    by (rule sorted_sort_key)
  have c: "sorted (map last_tracked_at (getShipmentsForUpdate st now))"
    unfolding getShipmentsForUpdate_def take_map [symmetric]
    by (intro sorted_wrt_take) (rule s)
  have "mset (getShipmentsForUpdate st now @ drop 100 ?sorted) = mset ?due"
    unfolding getShipmentsForUpdate_def by (simp only: append_take_drop_id mset_sort)
  moreover have "\<forall>s \<in> set (getShipmentsForUpdate st now). \<forall>u \<in> set (drop 100 ?sorted).
                   last_tracked_at s \<le> last_tracked_at u"
    unfolding getShipmentsForUpdate_def by (rule sorted_take_drop [OF s])
  ultimately have r: "\<exists>rest. mset (getShipmentsForUpdate st now @ rest) = mset ?due
             \<and> (\<forall>s \<in> set (getShipmentsForUpdate st now). \<forall>u \<in> set rest.
                   last_tracked_at s \<le> last_tracked_at u)"
    by blast
  have d: "set (getShipmentsForUpdate st now) = set ?due" if "length ?due \<le> 100"
    using that by (simp add: getShipmentsForUpdate_def)
  have e: "set ?due = {s \<in> set (shipments st).
               tracking_enabled s
               \<and> (\<exists>c. current_status s = Some c \<and> c \<noteq> ''DELIVERED'' \<and> c \<noteq> ''CANCELLED'')
               \<and> (last_tracked_at s = None
                  \<or> (\<exists>t. last_tracked_at s = Some t
                          \<and> 60 * tracking_frequency_minutes s < now - t))}"
    by (simp add: update_due_iff)
  from a b c r d show ?thesis unfolding e [symmetric] by blast
qed

text \<open>
  C8 as it is worded fails at the boundary: a shipment tracked exactly
  \<open>tracking_frequency_minutes\<close> ago is overdue by at least that long and is not
  selected; one second later it is.
\<close>

theorem due_selection_counterexample:
  "shipment_booked \<in> set (shipments state_S1)
   \<and> due_spec 1754389800 shipment_booked
   \<and> getShipmentsForUpdate state_S1 1754389800 = []
   \<and> getShipmentsForUpdate state_S1 1754389801 = [shipment_booked]"
  by code_simp

text \<open>
  The seed shipment, tracked at 10:00:00 with a frequency of 30 minutes, at 10:30:01
  and at 10:30:00.
\<close>

theorem due_selection_witness:
  "length (filter (update_due 1754389801) (shipments state_S1)) \<le> 100
   \<and> shipment_booked \<in> set (getShipmentsForUpdate state_S1 1754389801)
   \<and> length (getShipmentsForUpdate state_S1 1754389801) = 1
   \<and> set (getShipmentsForUpdate state_S1 1754389800) \<subseteq> {}"
proof -
  have s: "shipments state_S1 = [shipment_booked]" by code_simp
  from due_selection [of 1754389801 state_S1] due_selection [of 1754389800 state_S1]
  show ?thesis
    by (simp add: s shipment_booked_def shipment_S1_def update_due_def)
qed

text \<open>
  What does hold of quiescence: the due-shipment selection never selects a delivered or
  cancelled shipment, and the periodic updater leaves a delivered one alone.
\<close>

lemma terminal_never_due:
  assumes "current_status s = Some ''DELIVERED'' \<or> current_status s = Some ''CANCELLED''"
  shows "s \<notin> set (getShipmentsForUpdate st now)"
proof
  assume "s \<in> set (getShipmentsForUpdate st now)"
  then have "s \<in> set (sort_key last_tracked_at (filter (update_due now) (shipments st)))"
    unfolding getShipmentsForUpdate_def by (rule in_set_takeD)
  then have "update_due now s" by simp
  with assms show False by (auto simp: update_due_def)
qed

lemma periodic_skips_delivered:
  assumes "findById st shipmentId = Some s" and "current_status s = Some ''DELIVERED''"
  shows "periodicUpdate h st ad shipmentId now = (h, st)"
  using assms by (simp add: periodicUpdate_def)

text \<open>
  C4. The code at a cancelled shipment that a client watches: the due-shipment
  selection leaves it out, but the periodic updater refreshes it, and the event the
  feed returns moves \<open>last_tracked_at\<close> and takes the shipment out of CANCELLED.
\<close>

theorem cancelled_shipment_refreshed:
  "map current_status (shipments state_cancelled) = [Some ''CANCELLED'']
   \<and> map last_tracked_at (shipments state_cancelled) = [Some 1754388000]
   \<and> getShipmentsForUpdate state_cancelled 1754470000 = []
   \<and> activeShipments hub_A = [''s-1'']
   \<and> map last_tracked_at
        (shipments (snd (processPeriodicUpdates hub_A state_cancelled feed 1754470000)))
      = [Some 1754467200]
   \<and> map current_status
        (shipments (snd (processPeriodicUpdates hub_A state_cancelled feed 1754470000)))
      = [Some ''ARRIVED'']"
proof -
  have before: "map current_status (shipments state_cancelled) = [Some ''CANCELLED'']"
    "map last_tracked_at (shipments state_cancelled) = [Some 1754388000]"
    by code_simp+
  have sweep: "getShipmentsForUpdate state_cancelled 1754470000 = []"
    by code_simp
  have active: "activeShipments hub_A = [''s-1'']"
    by code_simp
  have after: "map last_tracked_at
        (shipments (snd (processPeriodicUpdates hub_A state_cancelled feed 1754470000)))
      = [Some 1754467200]"
    "map current_status
        (shipments (snd (processPeriodicUpdates hub_A state_cancelled feed 1754470000)))
      = [Some ''ARRIVED'']"
    by code_simp+
  from before sweep active after show ?thesis by simp
qed

subsection \<open>The hub\<close>

text \<open>
  C7, as the code has it. For an event that is critical, an exception or a milestone,
  a broadcast keeps a client's earlier messages and adds to them, in this order: one
  \<open>tracking_event\<close> if the client has joined the shipment's room, one
  \<open>customer_tracking_update\<close> if it has joined the room of the shipment's customer, and
  one \<open>critical_update\<close> if it has joined the shipment's room; nothing else. The three
  messages carry the same event data (the shipment's id and AWB, the serialized event,
  the shipment's status, location and estimated delivery, and the time of the
  broadcast); \<open>customer_tracking_update\<close> adds the customer's id and
  \<open>critical_update\<close> the notification to show.
\<close>

theorem broadcast_fanout:
  assumes "is_critical ev \<or> is_exception ev \<or> is_milestone ev"
  shows "(let D = \<lparr> ed_shipmentId = te_shipment_id ev,
                    ed_awbNumber = awb_number shipment,
                    ed_event = toJSON ev,
                    ed_current_status = current_status shipment,
                    ed_current_location = current_location shipment,
                    ed_estimated_delivery_date = estimated_delivery_date shipment,
                    ed_timestamp = now \<rparr>;
              N = \<lparr> title = awb_number shipment @ '' - '' @ event_description ev,
                    body = (if truthy_str (event_location ev)
                            then ''Location: '' @ template (event_location ev) else []),
                    ntype = (if is_exception ev then ''exception'' else ''milestone'') \<rparr>
          in take (length (outbox h c)) (outbox (broadcastTrackingEvent h ev shipment now) c)
               = outbox h c
             \<and> drop (length (outbox h c)) (outbox (broadcastTrackingEvent h ev shipment now) c)
               = (if c \<in> rooms h (''shipment:'' @ te_shipment_id ev)
                  then [(''tracking_event'', EventPayload D)] else [])
                 @ (if c \<in> rooms h (''customer:'' @ customer_id shipment)
                    then [(''customer_tracking_update'',
                           CustomerUpdatePayload (customer_id shipment) D)] else [])
                 @ (if c \<in> rooms h (''shipment:'' @ te_shipment_id ev)
                    then [(''critical_update'', CriticalPayload D N)] else []))"
  using assms by (simp add: broadcastTrackingEvent_def emit_to_def Let_def)

text \<open>
  C7 as it is worded fails at scenario S4: the client subscribed to the customer
  receives one \<open>customer_tracking_update\<close>, no \<open>tracking_event\<close> and no
  \<open>critical_update\<close>.
\<close>

theorem broadcast_fanout_counterexample:
  "''sock-A'' \<in> rooms hub_S4 ''shipment:s-1''
   \<and> ''sock-B'' \<in> rooms hub_S4 ''customer:c-1''
   \<and> is_milestone flight_arrived_row
   \<and> customer_id shipment_booked = ''c-1''
   \<and> map fst (outbox hub_S4 ''sock-B'') = [''authenticated'', ''customer_subscribed'']
   \<and> map fst (outbox (broadcastTrackingEvent hub_S4 flight_arrived_row shipment_booked
                         1754467260) ''sock-B'')
      = [''authenticated'', ''customer_subscribed'', ''customer_tracking_update'']"
  by code_simp

text \<open>
  Scenario S4, for the client of the shipment's room and for the client of the
  customer's room.
\<close>

theorem broadcast_fanout_witness:
  "map fst (drop (length (outbox hub_S4 ''sock-A''))
              (outbox (broadcastTrackingEvent hub_S4 flight_arrived_row shipment_booked
                         1754467260) ''sock-A''))
     = [''tracking_event'', ''critical_update'']
   \<and> drop (length (outbox hub_S4 ''sock-B''))
        (outbox (broadcastTrackingEvent hub_S4 flight_arrived_row shipment_booked
                   1754467260) ''sock-B'')
     = [(''customer_tracking_update'',
         CustomerUpdatePayload ''c-1''
           \<lparr> ed_shipmentId = ''s-1'',
             ed_awbNumber = ''125-12345678'',
             ed_event = toJSON flight_arrived_row,
             ed_current_status = current_status shipment_booked,
             ed_current_location = current_location shipment_booked,
             ed_estimated_delivery_date = estimated_delivery_date shipment_booked,
             ed_timestamp = 1754467260 \<rparr>)]"
proof -
  have m: "is_critical flight_arrived_row \<or> is_exception flight_arrived_row
           \<or> is_milestone flight_arrived_row"
    by (simp add: flight_arrived_row_def event_at_def)
  have r: "''sock-A'' \<in> rooms hub_S4 (''shipment:'' @ te_shipment_id flight_arrived_row)"
    "''sock-A'' \<notin> rooms hub_S4 (''customer:'' @ customer_id shipment_booked)"
    "''sock-B'' \<notin> rooms hub_S4 (''shipment:'' @ te_shipment_id flight_arrived_row)"
    "''sock-B'' \<in> rooms hub_S4 (''customer:'' @ customer_id shipment_booked)"
    by code_simp+
  have i: "te_shipment_id flight_arrived_row = ''s-1''"
    "customer_id shipment_booked = ''c-1''"
    "awb_number shipment_booked = ''125-12345678''"
    by code_simp+
  from broadcast_fanout [OF m, of shipment_booked 1754467260 hub_S4 "''sock-A''"]
       broadcast_fanout [OF m, of shipment_booked 1754467260 hub_S4 "''sock-B''"]
       r
  show ?thesis by (simp add: Let_def i)
qed

text \<open>
  C5. The code for a client of customer \<open>c-2\<close> and the shipment of customer \<open>c-1\<close>:
  subscribing by AWB is refused, subscribing by shipment id joins the client to the
  shipment's room, and the next broadcast delivers the shipment's event to it.
\<close>

theorem subscribe_by_id_crosses_customers:
  "customer_id shipment_booked = ''c-1''
   \<and> findById state_S1 ''s-1'' = Some shipment_booked
   \<and> handleShipmentSubscription
        (handleAuthentication hub_connected ''sock-B'' (Some ''u-2'') (Some ''c-2'') 1754388100)
        state_S1 ''sock-B'' None (Some ''125-12345678'') 1754388200 = Inl AccessDenied
   \<and> ''sock-B'' \<in> rooms hub_B ''shipment:s-1''
   \<and> map fst (outbox hub_B ''sock-B'') = [''authenticated'', ''subscribed'']
   \<and> map fst (outbox (broadcastTrackingEvent hub_B flight_arrived_row shipment_booked
                         1754467260) ''sock-B'')
      = [''authenticated'', ''subscribed'', ''tracking_event'', ''critical_update'']"
proof -
  have s: "shipments state_S1 = [shipment_booked]" by code_simp
  have a: "handleShipmentSubscription
        (handleAuthentication hub_connected ''sock-B'' (Some ''u-2'') (Some ''c-2'') 1754388100)
        state_S1 ''sock-B'' None (Some ''125-12345678'') 1754388200 = Inl AccessDenied"
    by (simp add: handleShipmentSubscription_def handleAuthentication_def hub_connected_def
        emit_def truthy_str_def template_def findByAwb_def Shipment_new_def or_str_def s shipment_booked_def
        shipment_S1_def)
  have b: "customer_id shipment_booked = ''c-1''"
    "findById state_S1 ''s-1'' = Some shipment_booked"
    "''sock-B'' \<in> rooms hub_B ''shipment:s-1''"
    "map fst (outbox hub_B ''sock-B'') = [''authenticated'', ''subscribed'']"
    "map fst (outbox (broadcastTrackingEvent hub_B flight_arrived_row shipment_booked
                         1754467260) ''sock-B'')
      = [''authenticated'', ''subscribed'', ''tracking_event'', ''critical_update'']"
    by code_simp+
  from a b show ?thesis by simp
qed

subsection \<open>Serialization\<close>

lemma has_key_simps:
  "has_key [] k = False"
  "has_key ((a, v) # xs) k = (a = k \<or> has_key xs k)"
  "has_key (xs @ ys) k = (has_key xs k \<or> has_key ys k)"
  "has_key (if c then xs else []) k = (c \<and> has_key xs k)"
  by (auto simp: has_key_def)

lemma has_key_coordinates:
  "has_key (toJSON ev) ''coordinates'' = (truthy_num (longitude ev) \<and> truthy_num (latitude ev))"
  unfolding toJSON_def by (simp add: has_key_simps split del: if_split)

lemma has_key_environmental_data:
  "has_key (toJSON ev) ''environmental_data'' =
     (truthy_num (temperature_celsius ev) \<or> truthy_num (humidity_percent ev))"
  unfolding toJSON_def by (simp add: has_key_simps split del: if_split)

text \<open>
  C10. An event whose longitude or latitude is 0 is serialized without the
  \<open>coordinates\<close> key; the key is there exactly when both are present and not zero; and
  \<open>environmental_data\<close> is left out when the temperature is 0 and the humidity is
  absent or 0.
\<close>

theorem toJSON_coordinates_environment:
  "((longitude ev = Some 0 \<or> latitude ev = Some 0) \<longrightarrow> \<not> has_key (toJSON ev) ''coordinates'')
   \<and> (has_key (toJSON ev) ''coordinates'' \<longleftrightarrow>
        (\<exists>x y. longitude ev = Some x \<and> latitude ev = Some y \<and> x \<noteq> 0 \<and> y \<noteq> 0))
   \<and> ((temperature_celsius ev = Some 0
        \<and> (humidity_percent ev = None \<or> humidity_percent ev = Some 0))
       \<longrightarrow> \<not> has_key (toJSON ev) ''environmental_data'')"
  unfolding has_key_coordinates has_key_environmental_data
  by (auto simp: truthy_num_def split: option.splits)

text \<open>
  An event on the equator at 0 degrees Celsius.
\<close>

theorem toJSON_coordinates_environment_witness:
  "latitude equator_event = Some 0
   \<and> temperature_celsius equator_event = Some 0
   \<and> humidity_percent equator_event = None
   \<and> \<not> has_key (toJSON equator_event) ''coordinates''
   \<and> \<not> has_key (toJSON equator_event) ''environmental_data''"
  using toJSON_coordinates_environment [of equator_event]
  by (simp add: equator_event_def event_at_def)

end
